theory Spec2Isabelle
  imports Complex_Main
begin

section \<open>Data model (src/types.ts)\<close>

text \<open>
  Coordinates are JavaScript numbers. They are modelled as real numbers: the finite,
  exactly computed case of the source's arithmetic. Where the source can produce
  \<open>NaN\<close>, \<open>Infinity\<close> or \<open>undefined\<close> from finite inputs (a division by zero, a
  read past the end of an array) the model writes that case out explicitly.

  The record fields of a point are called \<open>px\<close> and \<open>py\<close> (the source's \<open>x\<close> and
  \<open>y\<close>), an element's \<open>id\<close>, \<open>type\<close> and \<open>text\<close> are \<open>elemId\<close>, \<open>elemType\<close> and
  \<open>textContent\<close>.
\<close>

record Point =
  px :: real
  py :: real

record Bounds =
  minX :: real
  minY :: real
  maxX :: real
  maxY :: real

datatype Tool = ToolSelect | ToolPen | ToolLine | ToolRectangle | ToolCircle
  | ToolPan | ToolEraser | ToolText

record ElementStyle =
  strokeColor :: string
  fillColor :: string
  strokeWidth :: real
  fontSize :: "real option"

text \<open>
  The seven element types of \<open>types.ts\<close>. \<open>Eraser\<close> is not one of them: the cast
  \<open>type: tool as 'line'\<close> of \<open>handleMouseDown\<close> stores the name of the active tool,
  and the eraser tool reaches that line.
\<close>

datatype ElementType = Pen | Line | Rectangle | Circle | Path | Text | Raster | Eraser

text \<open>
  An element is a JavaScript object: the union of the fields of the seven interfaces of
  \<open>types.ts\<close>, each optional field absent (\<open>None\<close>) or present. The spread-and-override
  \<open>{ ...el, points: newPoints }\<close> of the source is a record update. Reading a property
  of an absent field (\<open>element.points.length\<close> without \<open>points\<close>) throws a
  \<open>TypeError\<close> in the source; a function that can do so returns an \<open>option\<close>, and
  \<open>None\<close> is that error.
\<close>

record Element =
  elemId :: int
  elemType :: ElementType
  style :: ElementStyle
  isMap :: "bool option"
  points :: "Point list option"
  startElementId :: "int option"
  endElementId :: "int option"
  pathData :: "string option"
  bounds :: "Bounds option"
  textContent :: "string option"
  imageUrl :: "string option"
  sourceStrokeColor :: "string option"

text \<open>
  What \<open>types.ts\<close> declares for each type: every element but a \<open>raster\<close> has
  \<open>points\<close>, a \<open>path\<close> has its path data and bounds, a \<open>text\<close> its text, a
  \<open>raster\<close> its image and bounds.
\<close>

definition wellTyped :: "Element \<Rightarrow> bool" where
  "wellTyped el =
    (case elemType el of
       Path \<Rightarrow> points el \<noteq> None \<and> pathData el \<noteq> None \<and> bounds el \<noteq> None
     | Text \<Rightarrow> points el \<noteq> None \<and> textContent el \<noteq> None
     | Raster \<Rightarrow> imageUrl el \<noteq> None \<and> bounds el \<noteq> None \<and> sourceStrokeColor el \<noteq> None
     | _ \<Rightarrow> points el \<noteq> None)"

text \<open>Truthiness of an optional string: present and not empty.\<close>

definition truthyStr :: "string option \<Rightarrow> bool" where
  "truthyStr s = (case s of None \<Rightarrow> False | Some t \<Rightarrow> t \<noteq> [])"

section \<open>Geometry engine (src/utils/geometry.ts)\<close>

definition zeroBounds :: Bounds where
  "zeroBounds = \<lparr>minX = 0, minY = 0, maxX = 0, maxY = 0\<rparr>"

text \<open>
  The \<open>forEach\<close> of \<open>getRawElementBounds\<close> folds \<open>Math.min\<close>/\<open>Math.max\<close> over the
  points, starting from \<open>Infinity\<close>/\<open>-Infinity\<close>; on a non-empty list the first point
  replaces the infinite start value.
\<close>

fun pointsBounds :: "Point list \<Rightarrow> Bounds" where
  "pointsBounds [] = zeroBounds"
| "pointsBounds (p # ps) =
     \<lparr>minX = fold (\<lambda>q m. min m (px q)) ps (px p),
      minY = fold (\<lambda>q m. min m (py q)) ps (py p),
      maxX = fold (\<lambda>q m. max m (px q)) ps (px p),
      maxY = fold (\<lambda>q m. max m (py q)) ps (py p)\<rparr>"

text \<open>\<open>element.style.fontSize || 24\<close>: an absent or zero font size is 24.\<close>

definition fontSizeOr24 :: "ElementStyle \<Rightarrow> real" where
  "fontSizeOr24 st = (case fontSize st of None \<Rightarrow> 24 | Some f \<Rightarrow> if f = 0 then 24 else f)"

text \<open>
  The two tests of \<open>getRawElementBounds\<close> that read \<open>element.points.length\<close> behind
  a test of the type: \<open>None\<close> when \<open>points\<close> is absent there.
\<close>

definition isCircleWithEdge :: "Element \<Rightarrow> bool option" where
  "isCircleWithEdge element =
    (if elemType element = Circle then map_option (\<lambda>ps. length ps \<ge> 2) (points element)
     else Some False)"

definition isAnchoredText :: "Element \<Rightarrow> bool option" where
  "isAnchoredText element =
    (if elemType element = Text \<and> truthyStr (textContent element)
     then map_option (\<lambda>ps. length ps > 0) (points element)
     else Some False)"

text \<open>
  \<open>measureText\<close> stands for the browser's text measurement: the advance width of a
  text at a font size (\<open>ctx.measureText(text).width\<close> with the font
  \<open>${fontSize}px sans-serif\<close>).
\<close>

definition getRawElementBounds :: "(real \<Rightarrow> string \<Rightarrow> real) \<Rightarrow> Element \<Rightarrow> Bounds option" where
  "getRawElementBounds measureText element =
    (if (elemType element = Path \<or> elemType element = Raster) \<and> bounds element \<noteq> None
     then bounds element
     else case isCircleWithEdge element of
       None \<Rightarrow> None
     | Some True \<Rightarrow>
         (let center = the (points element) ! 0; edge = the (points element) ! 1;
              radius = sqrt ((px edge - px center)\<^sup>2 + (py edge - py center)\<^sup>2)
          in Some \<lparr>minX = px center - radius, minY = py center - radius,
                   maxX = px center + radius, maxY = py center + radius\<rparr>)
     | Some False \<Rightarrow>
         (case isAnchoredText element of
            None \<Rightarrow> None
          | Some True \<Rightarrow>
              (let fs = fontSizeOr24 (style element);
                   width = measureText fs (the (textContent element));
                   x = px (the (points element) ! 0); y = py (the (points element) ! 0)
               in Some \<lparr>minX = x, minY = y, maxX = x + width, maxY = y + fs\<rparr>)
          | Some False \<Rightarrow>
              (case points element of
                 Some (p # ps) \<Rightarrow> Some (pointsBounds (p # ps))
               | _ \<Rightarrow> Some zeroBounds)))"

definition getElementCenter :: "(real \<Rightarrow> string \<Rightarrow> real) \<Rightarrow> Element \<Rightarrow> Point option" where
  "getElementCenter measureText element =
    map_option (\<lambda>b. \<lparr>px = (minX b + maxX b) / 2, py = (minY b + maxY b) / 2\<rparr>)
      (getRawElementBounds measureText element)"

definition getElementBounds :: "(real \<Rightarrow> string \<Rightarrow> real) \<Rightarrow> Element \<Rightarrow> Bounds option" where
  "getElementBounds measureText element =
    (let padding = strokeWidth (style element) / 2 + 5
     in map_option (\<lambda>b. \<lparr>minX = minX b - padding, minY = minY b - padding,
                          maxX = maxX b + padding, maxY = maxY b + padding\<rparr>)
          (getRawElementBounds measureText element))"

text \<open>
  \<open>getElementsBounds\<close>: the empty list gives the zero box; otherwise the fold starts
  from \<open>Infinity\<close>/\<open>-Infinity\<close>, so the first element's bounds replace the start value.
\<close>

fun unionBounds :: "Bounds list \<Rightarrow> Bounds" where
  "unionBounds [] = zeroBounds"
| "unionBounds (b # bs) =
     \<lparr>minX = fold (\<lambda>c m. min m (minX c)) bs (minX b),
      minY = fold (\<lambda>c m. min m (minY c)) bs (minY b),
      maxX = fold (\<lambda>c m. max m (maxX c)) bs (maxX b),
      maxY = fold (\<lambda>c m. max m (maxY c)) bs (maxY b)\<rparr>"

definition getElementsBounds :: "(real \<Rightarrow> string \<Rightarrow> real) \<Rightarrow> Element list \<Rightarrow> Bounds option" where
  "getElementsBounds measureText els =
     map_option unionBounds (those (map (getRawElementBounds measureText) els))"

text \<open>
  What \<open>getAttachmentPoint\<close> returns: a point, or an object whose \<open>x\<close> is
  \<open>Infinity\<close> or \<open>-Infinity\<close> and whose \<open>y\<close> is the number given (the coordinates
  of a \<open>Point\<close> of this model are finite numbers).
\<close>

datatype Attachment = Attached Point | AttachedAtInfinity real

text \<open>
  \<open>getAttachmentPoint\<close>. \<open>Math.hypot(dx, dy)\<close> is the Euclidean norm. In the box
  branch the tests come in the source's order: the coincident target first, the
  degenerate box second, so that \<open>dy / dx\<close> and \<open>h / w\<close> are computed only with
  \<open>w \<noteq> 0\<close>, \<open>h \<noteq> 0\<close> and \<open>(dx, dy) \<noteq> (0, 0)\<close>. The two divisions by zero that
  remain are written out, since HOL's \<open>a / 0\<close> is \<open>0\<close>. With \<open>dx = 0\<close>, \<open>dy / dx\<close>
  is infinite in the source: \<open>Math.abs(slope) < hSlope\<close> is false and
  \<open>(y - center.y) / slope\<close> is zero. With \<open>dy = 0\<close> the slope is zero; the last
  branch is then taken when \<open>h / w\<close> is negative (stored bounds with
  \<open>maxX < minX\<close> or \<open>maxY < minY\<close>), and \<open>(y - center.y) / slope\<close>, the quotient of
  \<open>- h\<close> by zero, is infinite, with the sign that the signs of \<open>h\<close> and of the zero
  give it. The center is the midpoint of the raw bounds, here as in the source; for a
  circle the source's midpoint of \<open>c - r\<close> and \<open>c + r\<close> can differ from the stored
  center \<open>c\<close> by a rounding error, which the exact arithmetic of the model does not
  have, so nothing below is stated about the stored center.
\<close>

definition getAttachmentPoint ::
  "(real \<Rightarrow> string \<Rightarrow> real) \<Rightarrow> Element \<Rightarrow> Point \<Rightarrow> Attachment option" where
  "getAttachmentPoint measureText element targetPoint =
    (case getRawElementBounds measureText element of
       None \<Rightarrow> None
     | Some b \<Rightarrow>
    (case getElementCenter measureText element of
       None \<Rightarrow> None
     | Some center \<Rightarrow>
    Some
    (let dx = px targetPoint - px center;
         dy = py targetPoint - py center
     in if elemType element = Circle then
          (let radius = (maxX b - minX b) / 2;
               dist = sqrt (dx\<^sup>2 + dy\<^sup>2)
           in if dist = 0 then Attached \<lparr>px = px center + radius, py = py center\<rparr>
              else Attached \<lparr>px = px center + (dx / dist) * radius,
                             py = py center + (dy / dist) * radius\<rparr>)
        else
          (let w = (maxX b - minX b) / 2;
               h = (maxY b - minY b) / 2
           in if dx = 0 \<and> dy = 0 then Attached \<lparr>px = px center + w, py = py center\<rparr>
              else if w = 0 \<or> h = 0 then Attached center
              else if dx = 0 then
                Attached \<lparr>px = px center,
                          py = (if dy > 0 then py center + h else py center - h)\<rparr>
              else
                (let slope = dy / dx; hSlope = h / w
                 in if \<bar>slope\<bar> < hSlope then
                      (let x = (if dx > 0 then px center + w else px center - w)
                       in Attached \<lparr>px = x, py = py center + (x - px center) * slope\<rparr>)
                    else
                      (let y = (if dy > 0 then py center + h else py center - h)
                       in if slope = 0 then AttachedAtInfinity y
                          else Attached \<lparr>px = px center + (y - py center) / slope,
                                         py = y\<rparr>))))))"

section \<open>The path transform (src/utils/geometry.ts)\<close>

text \<open>
  \<open>transformPathData\<close> works on the text of the path data with two regular
  expressions. \<open>/([A-Za-z])([^A-Za-z]*)/g\<close> cuts the string into commands: a letter
  and the longest run of non-letters after it; what stands before the first letter is
  kept as it is. \<open>/-?\d*\.?\d+/g\<close> then reads the numbers of each run.
\<close>

definition isLetter :: "char \<Rightarrow> bool" where
  "isLetter c = (let n = (of_char c :: nat) in (65 \<le> n \<and> n \<le> 90) \<or> (97 \<le> n \<and> n \<le> 122))"

definition isDigit :: "char \<Rightarrow> bool" where
  "isDigit c = (let n = (of_char c :: nat) in 48 \<le> n \<and> n \<le> 57)"

definition toUpperCase :: "char \<Rightarrow> char" where
  "toUpperCase c =
    (case map_of (zip ''abcdefghijklmnopqrstuvwxyz'' ''ABCDEFGHIJKLMNOPQRSTUVWXYZ'') c of
       Some u \<Rightarrow> u
     | None \<Rightarrow> c)"

text \<open>
  \<open>command.toLowerCase() === command\<close>, for a command matched by \<open>[A-Za-z]\<close>: the
  letter is not an upper-case one.
\<close>

definition isRelative :: "char \<Rightarrow> bool" where
  "isRelative c = (let n = (of_char c :: nat) in \<not> (65 \<le> n \<and> n \<le> 90))"

text \<open>The matches of the first expression: each letter with the non-letters after it.\<close>

fun splitCommands :: "string \<Rightarrow> (char \<times> string) list" where
  "splitCommands [] = []"
| "splitCommands (c # cs) =
     (if isLetter c then (c, takeWhile (\<lambda>d. \<not> isLetter d) cs) # splitCommands cs
      else splitCommands cs)"

text \<open>
  One match of \<open>-?\d*\.?\d+\<close> at the head of a string, with the rest after it. The
  expression is greedy and backtracks: after the optional sign it takes all digits; a
  dot is taken only when a digit follows it; without a fraction at least one digit must
  have been read.
\<close>

definition matchNumber :: "string \<Rightarrow> (string \<times> string) option" where
  "matchNumber s =
    (let sgn = (if s \<noteq> [] \<and> hd s = CHR ''-'' then [CHR ''-''] else []);
         s1 = (if s \<noteq> [] \<and> hd s = CHR ''-'' then tl s else s);
         ds = takeWhile isDigit s1;
         r = dropWhile isDigit s1
     in if r \<noteq> [] \<and> hd r = CHR ''.'' \<and> takeWhile isDigit (tl r) \<noteq> []
        then Some (sgn @ ds @ [CHR ''.''] @ takeWhile isDigit (tl r), dropWhile isDigit (tl r))
        else if ds \<noteq> [] then Some (sgn @ ds, r)
        else None)"

text \<open>\<open>str.match(/-?\d*\.?\d+/g)\<close>: all matches, from left to right.\<close>

function scanNumbers :: "string \<Rightarrow> string list" where
  "scanNumbers s =
     (if s = [] then []
      else case matchNumber s of
             Some (tok, rest) \<Rightarrow> tok # scanNumbers rest
           | None \<Rightarrow> scanNumbers (tl s))"
  by pat_completeness auto
termination
proof (relation "measure length", goal_cases)
  case 1
  show ?case by simp
next
  case (2 s)
  then show ?case by (cases s) auto
next
  case (3 s x2 tok rest)
  then have m: "matchNumber s = Some (tok, rest)" by simp
  have le: "length (dropWhile isDigit xs) \<le> length xs" for xs
    by (rule length_dropWhile_le)
  have tl_le: "length (dropWhile isDigit (tl (dropWhile isDigit xs))) \<le> length xs" for xs
  proof -
    have "length (dropWhile isDigit (tl (dropWhile isDigit xs))) \<le> length (tl (dropWhile isDigit xs))"
      by (rule length_dropWhile_le)
    also have "\<dots> \<le> length (dropWhile isDigit xs)" by simp
    also have "\<dots> \<le> length xs" by (rule length_dropWhile_le)
    finally show ?thesis .
  qed
  have tl_less: "length (dropWhile isDigit (tl (dropWhile isDigit xs))) < length xs"
    if "dropWhile isDigit xs \<noteq> []" for xs
  proof -
    have "length (dropWhile isDigit (tl (dropWhile isDigit xs))) \<le> length (tl (dropWhile isDigit xs))"
      by (rule length_dropWhile_le)
    also have "\<dots> < length (dropWhile isDigit xs)"
      using that by (cases "dropWhile isDigit xs") auto
    also have "\<dots> \<le> length xs" by (rule length_dropWhile_le)
    finally show ?thesis .
  qed
  have less: "length (dropWhile isDigit xs) < length xs" if "takeWhile isDigit xs \<noteq> []" for xs
    using that by (cases xs) (auto simp: le_imp_less_Suc length_dropWhile_le split: if_splits)
  have "length rest < length s"
  proof (cases "s \<noteq> [] \<and> hd s = CHR ''-''")
    case True
    then obtain s1 where s: "s = CHR ''-'' # s1" by (cases s) auto
    from m s have "rest = dropWhile isDigit (tl (dropWhile isDigit s1)) \<or> rest = dropWhile isDigit s1"
      by (auto simp: matchNumber_def Let_def split: if_splits)
    then show ?thesis
      using s tl_le[of s1] le[of s1] by (auto simp: le_imp_less_Suc)
  next
    case False
    from m False have "(rest = dropWhile isDigit (tl (dropWhile isDigit s)) \<and> dropWhile isDigit s \<noteq> [])
        \<or> (rest = dropWhile isDigit s \<and> takeWhile isDigit s \<noteq> [])"
      by (auto simp: matchNumber_def Let_def split: if_splits)
    then show ?thesis
      using tl_less[of s] less[of s] by auto
  qed
  then show ?case by simp
qed

text \<open>
  \<open>Number(tok)\<close> of a matched token: its decimal value. (The source rounds it to the
  nearest double; the model keeps the exact value.)
\<close>

definition digitValue :: "char \<Rightarrow> nat" where
  "digitValue c = (of_char c :: nat) - 48"

definition digitsValue :: "string \<Rightarrow> nat" where
  "digitsValue ds = foldl (\<lambda>a c. 10 * a + digitValue c) 0 ds"

definition tokenNumber :: "string \<Rightarrow> real" where
  "tokenNumber tok =
    (let neg = (tok \<noteq> [] \<and> hd tok = CHR ''-'');
         body = (if neg then tl tok else tok);
         ip = takeWhile isDigit body;
         fp = (case dropWhile isDigit body of [] \<Rightarrow> [] | _ # f \<Rightarrow> f);
         v = real (digitsValue ip) + real (digitsValue fp) / 10 ^ length fp
     in if neg then - v else v)"

definition isSpace :: "char \<Rightarrow> bool" where
  "isSpace c = (of_char c \<in> {9, 10, 11, 12, 13, 32 :: nat})"

definition trim :: "string \<Rightarrow> string" where
  "trim s = rev (dropWhile isSpace (rev (dropWhile isSpace s)))"

text \<open>\<open>argsStr.trim().match(...)?.map(Number) || []\<close>\<close>

definition commandArgs :: "string \<Rightarrow> real list" where
  "commandArgs argsStr = map tokenNumber (scanNumbers (trim argsStr))"

text \<open>
  The values the arithmetic of the switch can produce: a number, \<open>NaN\<close>, or
  \<open>undefined\<close> (an array read past the end, which the arc branch pushes as it is).
  A product or sum with \<open>undefined\<close> is \<open>NaN\<close>.
\<close>

datatype jsnum = Num real | NaN | Undefined

definition argAt :: "real list \<Rightarrow> nat \<Rightarrow> jsnum" where
  "argAt args i = (if i < length args then Num (args ! i) else Undefined)"

fun jsMul :: "jsnum \<Rightarrow> real \<Rightarrow> jsnum" where
  "jsMul (Num a) b = Num (a * b)"
| "jsMul _ b = NaN"

fun jsAdd :: "jsnum \<Rightarrow> real \<Rightarrow> jsnum" where
  "jsAdd (Num a) b = Num (a + b)"
| "jsAdd _ b = NaN"

text \<open>
  The loop of the arc branch, \<open>for (i = 0; i < args.length; i += 7)\<close>, on the
  arguments from index \<open>i\<close> on; \<open>tx\<close>, \<open>ty\<close> are the translation that applies
  (\<open>0\<close> for a relative command).
\<close>

fun arcLoop :: "real list \<Rightarrow> real \<Rightarrow> real \<Rightarrow> real \<Rightarrow> real \<Rightarrow> jsnum list" where
  "arcLoop args scaleX scaleY tx ty =
     (if args = [] then []
      else [jsMul (argAt args 0) \<bar>scaleX\<bar>,
            jsMul (argAt args 1) \<bar>scaleY\<bar>,
            argAt args 2, argAt args 3, argAt args 4,
            jsAdd (jsMul (argAt args 5) scaleX) tx,
            jsAdd (jsMul (argAt args 6) scaleY) ty]
           @ arcLoop (drop 7 args) scaleX scaleY tx ty)"

text \<open>The loop of the default branch, \<open>for (i = 0; i < args.length; i += 2)\<close>.\<close>

fun pairLoop :: "real list \<Rightarrow> real \<Rightarrow> real \<Rightarrow> real \<Rightarrow> real \<Rightarrow> jsnum list" where
  "pairLoop args scaleX scaleY tx ty =
     (if args = [] then []
      else [jsAdd (jsMul (argAt args 0) scaleX) tx,
            jsAdd (jsMul (argAt args 1) scaleY) ty]
           @ pairLoop (drop 2 args) scaleX scaleY tx ty)"

text \<open>\<open>newArgs\<close> of a command other than \<open>Z\<close>, by the switch on the upper-cased letter.\<close>

definition transformArgs :: "char \<Rightarrow> real list \<Rightarrow> real \<Rightarrow> real \<Rightarrow> Point \<Rightarrow> jsnum list" where
  "transformArgs command args scaleX scaleY translate =
    (let tx = (if isRelative command then 0 else px translate);
         ty = (if isRelative command then 0 else py translate)
     in if toUpperCase command = CHR ''H'' then map (\<lambda>x. Num (x * scaleX + tx)) args
        else if toUpperCase command = CHR ''V'' then map (\<lambda>y. Num (y * scaleY + ty)) args
        else if toUpperCase command = CHR ''A'' then arcLoop args scaleX scaleY tx ty
        else pairLoop args scaleX scaleY tx ty)"

text \<open>
  \<open>newArgs.join(' ')\<close>: \<open>numberToString\<close> is JavaScript's conversion of a finite
  number to a string; \<open>NaN\<close> is written \<open>NaN\<close> and \<open>join\<close> writes \<open>undefined\<close> as the
  empty string.
\<close>

definition jsnumToString :: "(real \<Rightarrow> string) \<Rightarrow> jsnum \<Rightarrow> string" where
  "jsnumToString numberToString v =
     (case v of Num r \<Rightarrow> numberToString r | NaN \<Rightarrow> ''NaN'' | Undefined \<Rightarrow> [])"

fun joinWith :: "string \<Rightarrow> string list \<Rightarrow> string" where
  "joinWith sep [] = []"
| "joinWith sep [a] = a"
| "joinWith sep (a # b # bs) = a @ sep @ joinWith sep (b # bs)"

text \<open>The replacement of one match: the callback of \<open>pathData.replace\<close>.\<close>

definition transformCommand ::
  "(real \<Rightarrow> string) \<Rightarrow> real \<Rightarrow> real \<Rightarrow> Point \<Rightarrow> char \<times> string \<Rightarrow> string" where
  "transformCommand numberToString scaleX scaleY translate m =
    (let command = fst m; args = commandArgs (snd m)
     in if args = [] \<and> toUpperCase command \<noteq> CHR ''Z'' then [command]
        else if toUpperCase command = CHR ''Z'' then ''Z''
        else [command] @ '' '' @
             joinWith '' '' (map (jsnumToString numberToString)
                               (transformArgs command args scaleX scaleY translate)))"

definition transformPathData ::
  "(real \<Rightarrow> string) \<Rightarrow> string \<Rightarrow> real \<Rightarrow> real \<Rightarrow> Point \<Rightarrow> string" where
  "transformPathData numberToString pathStr scaleX scaleY translate =
    (if pathStr = [] then []
     else takeWhile (\<lambda>d. \<not> isLetter d) pathStr
          @ concat (map (transformCommand numberToString scaleX scaleY translate)
                        (splitCommands pathStr)))"

definition translatePathData :: "(real \<Rightarrow> string) \<Rightarrow> string \<Rightarrow> real \<Rightarrow> real \<Rightarrow> string" where
  "translatePathData numberToString pathStr dx dy =
    (if pathStr = [] then []
     else transformPathData numberToString pathStr 1 1 \<lparr>px = dx, py = dy\<rparr>)"

section \<open>The image cache of the renderer (src/utils/render.ts)\<close>















section \<open>Hit testing (the canvas component)\<close>

definition isPointNearLine :: "Point \<Rightarrow> Point \<Rightarrow> Point \<Rightarrow> real \<Rightarrow> bool" where
  "isPointNearLine p1 p2 point threshold =
    (let dx = px p2 - px p1; dy = py p2 - py p1
     in if dx = 0 \<and> dy = 0 then False
        else
          (let t = ((px point - px p1) * dx + (py point - py p1) * dy) / (dx * dx + dy * dy);
               closestT = max 0 (min 1 t);
               closestPoint = \<lparr>px = px p1 + closestT * dx, py = py p1 + closestT * dy\<rparr>;
               dist = sqrt ((px closestPoint - px point)\<^sup>2 + (py closestPoint - py point)\<^sup>2)
           in dist < threshold))"

text \<open>
  The containment test of a \<open>path\<close> element is the browser's: a \<open>Path2D\<close> built from
  the path data, the line width set to \<open>style.strokeWidth + 10 / scale\<close>, then
  \<open>isPointInPath || isPointInStroke\<close>. It is the parameter \<open>pathHit\<close>, given the path
  data, the line width and the point; it returns \<open>Inr\<close> the answer, or \<open>Inl\<close> the error
  it throws. \<open>isPointInElement\<close> itself throws the \<open>TypeError\<close> of the bounds
  computation.
\<close>

type_synonym PathHit = "string \<Rightarrow> real \<Rightarrow> Point \<Rightarrow> string + bool"

definition isPointInElement ::
  "(real \<Rightarrow> string \<Rightarrow> real) \<Rightarrow> PathHit \<Rightarrow> Point \<Rightarrow> Element \<Rightarrow> real \<Rightarrow> string + bool" where
  "isPointInElement measureText pathHit point element scale =
    (case getElementBounds measureText element of
       None \<Rightarrow> Inl ''TypeError''
     | Some b \<Rightarrow>
        if px point < minX b \<or> px point > maxX b \<or> py point < minY b \<or> py point > maxY b
        then Inr False
        else if elemType element = Raster then Inr True
        else if elemType element = Path \<and> truthyStr (pathData element) then
          pathHit (the (pathData element)) (strokeWidth (style element) + 10 / scale) point
        else if elemType element = Line \<and> points element \<noteq> None
                \<and> length (the (points element)) \<ge> 2 then
          (let threshold = 10 / scale + strokeWidth (style element) / 2
           in Inr (isPointNearLine (the (points element) ! 0) (the (points element) ! 1)
                     point threshold))
        else Inr True)"

text \<open>
  \<open>getElementAtPoint\<close>: the \<open>for\<close> loop over the reversed element list with its
  \<open>try\<close>/\<open>catch\<close>. The second component is what the loop writes to \<open>console.error\<close>:
  the id of each element whose test threw, with the error.
\<close>

fun scanElements ::
  "(Element \<Rightarrow> string + bool) \<Rightarrow> Element list \<Rightarrow> (int \<times> string) list
     \<Rightarrow> Element option \<times> (int \<times> string) list" where
  "scanElements test [] logged = (None, logged)"
| "scanElements test (el # els) logged =
     (case test el of
        Inr True \<Rightarrow> (Some el, logged)
      | Inr False \<Rightarrow> scanElements test els logged
      | Inl err \<Rightarrow> scanElements test els (logged @ [(elemId el, err)]))"

definition getElementAtPoint ::
  "(real \<Rightarrow> string \<Rightarrow> real) \<Rightarrow> PathHit \<Rightarrow> real \<Rightarrow> Element list \<Rightarrow> Point
     \<Rightarrow> Element option \<times> (int \<times> string) list" where
  "getElementAtPoint measureText pathHit scale els point =
     scanElements (\<lambda>el. isPointInElement measureText pathHit point el scale) (rev els) []"

section \<open>The interaction controller (the canvas component)\<close>

datatype Handle = HandleN | HandleS | HandleW | HandleE
  | HandleNW | HandleNE | HandleSW | HandleSE

fun handleName :: "Handle \<Rightarrow> string" where
  "handleName HandleN = ''n''"
| "handleName HandleS = ''s''"
| "handleName HandleW = ''w''"
| "handleName HandleE = ''e''"
| "handleName HandleNW = ''nw''"
| "handleName HandleNE = ''ne''"
| "handleName HandleSW = ''sw''"
| "handleName HandleSE = ''se''"

text \<open>\<open>handle.includes('e')\<close> and its like.\<close>

definition handleIncludes :: "Handle \<Rightarrow> char \<Rightarrow> bool" where
  "handleIncludes h c = (c \<in> set (handleName h))"

datatype DragState = DragNone | Drawing | DraggingSelection | Resizing | MarqueeSelect

text \<open>
  \<open>initialElements\<close> is the \<open>Map\<close> from ids to the deep copies of the selected
  elements; a deep copy is the same value. \<open>aspectRatio\<close> is a quotient that is not
  a finite number when the selection has no height; it is stored and never read.
\<close>

record ResizingState =
  handle :: Handle
  initialSelectionBounds :: Bounds
  initialElements :: "int \<Rightarrow> Element option"
  aspectRatio :: "real option"

datatype HostCall = OnElementDoubleClick int | OnTextCreate Point

text \<open>
  What the browser supplies: text measurement, the containment test of path data, and
  the conversion of a number to a string.
\<close>

record Browser =
  measureTextWidth :: "real \<Rightarrow> string \<Rightarrow> real"
  pathHitTest :: PathHit
  numberToString :: "real \<Rightarrow> string"

text \<open>
  The state the handlers read and write: the props owned by the host (\<open>elements\<close>,
  \<open>selectedElementIds\<close>, \<open>tool\<close>, \<open>style\<close> as \<open>toolStyle\<close>, the zoom scale of
  \<open>panZoomState\<close>), the component's own state and refs, and what the handlers hand
  out: the \<open>overwrite\<close> flag of each \<open>setElements\<close> call, the host callbacks
  called, the lines written to \<open>console.error\<close>. A \<open>Set\<close> of ids is the list of its
  members in insertion order. The zoom scale is positive (the pan-zoom wrapper keeps it
  between 0.1 and 20).
\<close>

record Canvas =
  elements :: "Element list"
  selectedElementIds :: "int list"
  tool :: Tool
  toolStyle :: ElementStyle
  panZoomScale :: real
  dragState :: DragState
  drawingElement :: "Element option"
  lastDragPoint :: "Point option"
  marquee :: "(Point \<times> Point) option"
  lastClickTime :: int
  resizingState :: "ResizingState option"
  hoveredHandle :: "Handle option"
  setElementsCalls :: "bool list"
  hostCalls :: "HostCall list"
  consoleErrors :: "(int \<times> string) list"

text \<open>
  A pointer event, with the point already converted to canvas coordinates by
  \<open>getPointInCanvas\<close>.
\<close>

record PointerEvent =
  button :: int
  shiftKey :: bool
  canvasPoint :: Point

text \<open>\<open>Set.prototype.add\<close>: a new member goes to the end.\<close>

definition setAdd :: "int \<Rightarrow> int list \<Rightarrow> int list" where
  "setAdd i s = (if i \<in> set s then s else s @ [i])"

definition getHandles :: "real \<Rightarrow> Bounds \<Rightarrow> (Handle \<times> Bounds) list" where
  "getHandles scale b =
    (let handleSize = 8 / scale;
         halfHandle = handleSize / 2;
         midX = (minX b + maxX b) / 2;
         midY = (minY b + maxY b) / 2
     in [(HandleNW, \<lparr>minX = minX b - halfHandle, minY = minY b - halfHandle,
                     maxX = minX b + halfHandle, maxY = minY b + halfHandle\<rparr>),
         (HandleN, \<lparr>minX = midX - halfHandle, minY = minY b - halfHandle,
                    maxX = midX + halfHandle, maxY = minY b + halfHandle\<rparr>),
         (HandleNE, \<lparr>minX = maxX b - halfHandle, minY = minY b - halfHandle,
                     maxX = maxX b + halfHandle, maxY = minY b + halfHandle\<rparr>),
         (HandleE, \<lparr>minX = maxX b - halfHandle, minY = midY - halfHandle,
                    maxX = maxX b + halfHandle, maxY = midY + halfHandle\<rparr>),
         (HandleSE, \<lparr>minX = maxX b - halfHandle, minY = maxY b - halfHandle,
                     maxX = maxX b + halfHandle, maxY = maxY b + halfHandle\<rparr>),
         (HandleS, \<lparr>minX = midX - halfHandle, minY = maxY b - halfHandle,
                    maxX = midX + halfHandle, maxY = maxY b + halfHandle\<rparr>),
         (HandleSW, \<lparr>minX = minX b - halfHandle, minY = maxY b - halfHandle,
                     maxX = minX b + halfHandle, maxY = maxY b + halfHandle\<rparr>),
         (HandleW, \<lparr>minX = minX b - halfHandle, minY = midY - halfHandle,
                    maxX = minX b + halfHandle, maxY = midY + halfHandle\<rparr>)])"

definition selectedElements :: "Canvas \<Rightarrow> Element list" where
  "selectedElements st = filter (\<lambda>el. elemId el \<in> set (selectedElementIds st)) (elements st)"

text \<open>\<open>getHandleAtPoint\<close>: \<open>None\<close> is the \<open>TypeError\<close> of the bounds computation.\<close>

definition getHandleAtPoint :: "Browser \<Rightarrow> Canvas \<Rightarrow> Point \<Rightarrow> Handle option option" where
  "getHandleAtPoint br st point =
    (if selectedElementIds st = [] then Some None
     else case getElementsBounds (measureTextWidth br) (selectedElements st) of
       None \<Rightarrow> None
     | Some b \<Rightarrow>
         Some (map_option fst
           (find (\<lambda>nh. px point \<ge> minX (snd nh) \<and> px point \<le> maxX (snd nh)
                       \<and> py point \<ge> minY (snd nh) \<and> py point \<le> maxY (snd nh))
                 (getHandles (panZoomScale st) b))))"

subsection \<open>Pointer down\<close>

definition toolElementType :: "Tool \<Rightarrow> ElementType" where
  "toolElementType t =
    (case t of ToolPen \<Rightarrow> Pen | ToolLine \<Rightarrow> Line | ToolRectangle \<Rightarrow> Rectangle
     | ToolCircle \<Rightarrow> Circle | _ \<Rightarrow> Eraser)"

text \<open>
  \<open>handleMouseDown\<close>. \<open>clickTime\<close> and \<open>newId\<close> are the two readings of
  \<open>Date.now()\<close>. \<open>None\<close> is an uncaught \<open>TypeError\<close>, or, in the line tool, a new
  line whose first point is an attachment point with an infinite \<open>x\<close>, which no
  element of this model holds. The tools \<open>select\<close>, \<open>text\<close> and \<open>pan\<close> return before
  the last branch, which creates the element being drawn.
\<close>

definition handleMouseDown ::
  "Browser \<Rightarrow> int \<Rightarrow> int \<Rightarrow> PointerEvent \<Rightarrow> Canvas \<Rightarrow> Canvas option" where
  "handleMouseDown br clickTime newId e st =
    (if tool st = ToolPan \<or> button e \<noteq> 0 then Some st
     else
      (let isDoubleClick = (clickTime - lastClickTime st < 300);
           st1 = st\<lparr>lastClickTime := clickTime\<rparr>;
           startPoint = canvasPoint e
       in case getHandleAtPoint br st startPoint of
            None \<Rightarrow> None
          | Some (Some h) \<Rightarrow>
              (case getElementsBounds (measureTextWidth br) (selectedElements st) of
                 None \<Rightarrow> None
               | Some b \<Rightarrow>
                   Some (st1\<lparr>resizingState := Some
                      \<lparr>handle = h,
                       initialSelectionBounds = b,
                       initialElements =
                         map_of (rev (map (\<lambda>el. (elemId el, el)) (selectedElements st))),
                       aspectRatio =
                         (if maxY b - minY b = 0 then None
                          else Some ((maxX b - minX b) / (maxY b - minY b)))\<rparr>,
                     dragState := Resizing\<rparr>))
          | Some None \<Rightarrow>
              (let hit = getElementAtPoint (measureTextWidth br) (pathHitTest br)
                           (panZoomScale st) (elements st) startPoint;
                   clickedElement = fst hit;
                   st2 = st1\<lparr>consoleErrors := consoleErrors st1 @ snd hit\<rparr>
               in if isDoubleClick \<and> clickedElement \<noteq> None
                       \<and> elemType (the clickedElement) = Text
                  then Some (st2\<lparr>hostCalls := hostCalls st2 @
                                  [OnElementDoubleClick (elemId (the clickedElement))]\<rparr>)
                  else if tool st = ToolText
                  then Some (st2\<lparr>hostCalls := hostCalls st2 @ [OnTextCreate startPoint]\<rparr>)
                  else if tool st = ToolSelect then
                    (case clickedElement of
                       Some el \<Rightarrow>
                         Some ((if elemId el \<notin> set (selectedElementIds st)
                                then st2\<lparr>selectedElementIds :=
                                       setAdd (elemId el)
                                         (if shiftKey e then selectedElementIds st else [])\<rparr>
                                else st2)
                               \<lparr>dragState := DraggingSelection,
                                lastDragPoint := Some startPoint\<rparr>)
                     | None \<Rightarrow>
                         Some ((if \<not> shiftKey e then st2\<lparr>selectedElementIds := []\<rparr> else st2)
                               \<lparr>marquee := Some (startPoint, startPoint),
                                dragState := MarqueeSelect\<rparr>))
                  else
                    (let newElement =
                           \<lparr>elemId = newId, elemType = toolElementType (tool st),
                            style = toolStyle st, isMap = None,
                            points = Some [startPoint, startPoint],
                            startElementId = None, endElementId = None, pathData = None,
                            bounds = None, textContent = None, imageUrl = None,
                            sourceStrokeColor = None\<rparr>
                     in if tool st = ToolLine \<and> clickedElement \<noteq> None then
                          (case getAttachmentPoint (measureTextWidth br)
                                  (the clickedElement) startPoint of
                             None \<Rightarrow> None
                           | Some (AttachedAtInfinity y) \<Rightarrow> None
                           | Some (Attached a) \<Rightarrow>
                               Some (st2\<lparr>dragState := Drawing,
                                         drawingElement := Some (newElement
                                           \<lparr>startElementId := Some (elemId (the clickedElement)),
                                            points := Some [a, startPoint]\<rparr>)\<rparr>))
                        else Some (st2\<lparr>dragState := Drawing,
                                       drawingElement := Some newElement\<rparr>)))))"

subsection \<open>Pointer move: resizing\<close>

definition isCornerHandle :: "Handle \<Rightarrow> bool" where
  "isCornerHandle h = (h \<in> {HandleNW, HandleNE, HandleSW, HandleSE})"

text \<open>
  The new selection bounds of the \<open>resizing\<close> branch: the edges the handle moves, the
  swaps of inverted edges, then the aspect lock. \<open>isFinite(originalAspectRatio)\<close>
  holds when the initial height is not zero. \<open>newWidth / newHeight\<close> with
  \<open>newHeight = 0\<close> is infinite, and then farther than \<open>1e-2\<close> from the ratio, unless
  \<open>newWidth\<close> is zero too: \<open>NaN\<close>, for which the comparison is false.
\<close>

definition resizeBounds :: "Handle \<Rightarrow> Bounds \<Rightarrow> Point \<Rightarrow> bool \<Rightarrow> Bounds" where
  "resizeBounds h initialB currentPoint shift =
    (let nb0 = initialB
           \<lparr>maxX := (if handleIncludes h CHR ''e'' then px currentPoint else maxX initialB),
            minX := (if handleIncludes h CHR ''w'' then px currentPoint else minX initialB),
            maxY := (if handleIncludes h CHR ''s'' then py currentPoint else maxY initialB),
            minY := (if handleIncludes h CHR ''n'' then py currentPoint else minY initialB)\<rparr>;
         nb1 = (if minX nb0 > maxX nb0 then nb0\<lparr>minX := maxX nb0, maxX := minX nb0\<rparr> else nb0);
         nb2 = (if minY nb1 > maxY nb1 then nb1\<lparr>minY := maxY nb1, maxY := minY nb1\<rparr> else nb1);
         initialW = maxX initialB - minX initialB;
         initialH = maxY initialB - minY initialB
     in if shift \<and> isCornerHandle h \<and> initialH \<noteq> 0 \<and> initialW / initialH > 0 then
          (let originalAspectRatio = initialW / initialH;
               newWidth = maxX nb2 - minX nb2;
               newHeight = maxY nb2 - minY nb2
           in if (if newHeight = 0 then newWidth \<noteq> 0
                  else \<bar>newWidth / newHeight - originalAspectRatio\<bar> > 1 / 100)
              then
                (if handleIncludes h CHR ''w'' \<or> handleIncludes h CHR ''e'' then
                   (let aspectHeight = newWidth / originalAspectRatio
                    in if handleIncludes h CHR ''n''
                       then nb2\<lparr>minY := maxY nb2 - aspectHeight\<rparr>
                       else nb2\<lparr>maxY := minY nb2 + aspectHeight\<rparr>)
                 else
                   (let aspectWidth = newHeight * originalAspectRatio
                    in if handleIncludes h CHR ''w''
                       then nb2\<lparr>minX := maxX nb2 - aspectWidth\<rparr>
                       else nb2\<lparr>maxX := minX nb2 + aspectWidth\<rparr>))
              else nb2)
        else nb2)"

definition resizeScaleX :: "Bounds \<Rightarrow> Bounds \<Rightarrow> real" where
  "resizeScaleX initialB newB =
    (if maxX initialB - minX initialB = 0 then 1
     else (maxX newB - minX newB) / (maxX initialB - minX initialB))"

definition resizeScaleY :: "Bounds \<Rightarrow> Bounds \<Rightarrow> real" where
  "resizeScaleY initialB newB =
    (if maxY initialB - minY initialB = 0 then 1
     else (maxY newB - minY newB) / (maxY initialB - minY initialB))"

definition resizeOrigin :: "Handle \<Rightarrow> Bounds \<Rightarrow> Point" where
  "resizeOrigin h initialB =
    \<lparr>px = (if handleIncludes h CHR ''w'' then maxX initialB else minX initialB),
     py = (if handleIncludes h CHR ''n'' then maxY initialB else minY initialB)\<rparr>"

text \<open>
  The map about the fixed anchor that the resize applies to the points and to the
  stored bounds of a \<open>path\<close> element, with the swap of inverted edges for the bounds.
\<close>

definition remapPoint :: "Point \<Rightarrow> real \<Rightarrow> real \<Rightarrow> Point \<Rightarrow> Point" where
  "remapPoint origin scaleX scaleY p =
    \<lparr>px = px origin + (px p - px origin) * scaleX,
     py = py origin + (py p - py origin) * scaleY\<rparr>"

definition remapBounds :: "Point \<Rightarrow> real \<Rightarrow> real \<Rightarrow> Bounds \<Rightarrow> Bounds" where
  "remapBounds origin scaleX scaleY b =
    (let nb = \<lparr>minX = px origin + (minX b - px origin) * scaleX,
               minY = py origin + (minY b - py origin) * scaleY,
               maxX = px origin + (maxX b - px origin) * scaleX,
               maxY = py origin + (maxY b - py origin) * scaleY\<rparr>;
         nb1 = (if minX nb > maxX nb then nb\<lparr>minX := maxX nb, maxX := minX nb\<rparr> else nb)
     in if minY nb1 > maxY nb1 then nb1\<lparr>minY := maxY nb1, maxY := minY nb1\<rparr> else nb1)"

text \<open>The function that the resize maps over the elements.\<close>

definition resizeElement ::
  "(real \<Rightarrow> string) \<Rightarrow> Point \<Rightarrow> real \<Rightarrow> real \<Rightarrow> (int \<Rightarrow> Element option) \<Rightarrow> Element \<Rightarrow> Element" where
  "resizeElement numToStr origin scaleX scaleY initialEls el =
    (case initialEls (elemId el) of
       None \<Rightarrow> el
     | Some initialEl \<Rightarrow>
         if elemType initialEl = Raster then el
         else
           (let newPoints = (case points initialEl of
                               Some ps \<Rightarrow> map (remapPoint origin scaleX scaleY) ps
                             | None \<Rightarrow> []);
                updatedEl = el\<lparr>points := Some newPoints\<rparr>
            in if elemType initialEl = Path \<and> truthyStr (pathData initialEl)
                    \<and> bounds initialEl \<noteq> None
               then
                 (let translation = \<lparr>px = px origin * (1 - scaleX),
                                     py = py origin * (1 - scaleY)\<rparr>
                  in updatedEl
                       \<lparr>pathData := Some (transformPathData numToStr (the (pathData initialEl))
                                            scaleX scaleY translation),
                        bounds := Some (remapBounds origin scaleX scaleY
                                          (the (bounds initialEl)))\<rparr>)
               else updatedEl))"

subsection \<open>Pointer move: dragging the selection\<close>

text \<open>
  \<open>Map.prototype.set\<close> on a \<open>Map\<close> kept as the list of its entries in insertion
  order: an existing key keeps its place, a new key goes to the end.
\<close>

fun mapSet :: "int \<Rightarrow> Element \<Rightarrow> (int \<times> Element) list \<Rightarrow> (int \<times> Element) list" where
  "mapSet k v [] = [(k, v)]"
| "mapSet k v (kv # m) = (if fst kv = k then (k, v) # m else kv # mapSet k v m)"

definition movePoint :: "real \<Rightarrow> real \<Rightarrow> Point \<Rightarrow> Point" where
  "movePoint dx dy p = \<lparr>px = px p + dx, py = py p + dy\<rparr>"

definition moveBounds :: "real \<Rightarrow> real \<Rightarrow> Bounds \<Rightarrow> Bounds" where
  "moveBounds dx dy b =
    \<lparr>minX = minX b + dx, minY = minY b + dy, maxX = maxX b + dx, maxY = maxY b + dy\<rparr>"

text \<open>
  The \<open>switch\<close> of the drag on the type of a selected element. \<open>None\<close> is the
  \<open>TypeError\<close> of \<open>el.points.map\<close> or \<open>el.bounds.minX\<close> on an absent field;
  \<open>translatePathData\<close> of absent path data is the empty string.
\<close>

definition dragElement :: "(real \<Rightarrow> string) \<Rightarrow> real \<Rightarrow> real \<Rightarrow> Element \<Rightarrow> Element option" where
  "dragElement numToStr dx dy el =
    (if elemType el = Path then
       (case points el of
          None \<Rightarrow> None
        | Some ps \<Rightarrow>
            (case bounds el of
               None \<Rightarrow> None
             | Some b \<Rightarrow>
                 Some (el\<lparr>points := Some (map (movePoint dx dy) ps),
                          pathData := Some (translatePathData numToStr
                                              (case pathData el of None \<Rightarrow> [] | Some d \<Rightarrow> d) dx dy),
                          bounds := Some (moveBounds dx dy b)\<rparr>)))
     else if elemType el = Raster then
       (case bounds el of
          None \<Rightarrow> None
        | Some b \<Rightarrow> Some (el\<lparr>bounds := Some (moveBounds dx dy b)\<rparr>))
     else
       (case points el of
          None \<Rightarrow> None
        | Some ps \<Rightarrow> Some (el\<lparr>points := Some (map (movePoint dx dy) ps)\<rparr>)))"

text \<open>\<open>selectedElementIds.forEach\<close> over the \<open>Map\<close> of the elements.\<close>

fun dragSelected ::
  "(real \<Rightarrow> string) \<Rightarrow> real \<Rightarrow> real \<Rightarrow> int list \<Rightarrow> (int \<times> Element) list
     \<Rightarrow> (int \<times> Element) list option" where
  "dragSelected numToStr dx dy [] m = Some m"
| "dragSelected numToStr dx dy (i # ids) m =
     (case map_of m i of
        None \<Rightarrow> dragSelected numToStr dx dy ids m
      | Some el \<Rightarrow>
          (case dragElement numToStr dx dy el of
             None \<Rightarrow> None
           | Some newEl \<Rightarrow> dragSelected numToStr dx dy ids (mapSet i newEl m)))"

text \<open>
  The function the drag gives to \<open>setElements\<close>: the \<open>Map\<close> from the ids to the
  previous elements, the selected ones replaced, then its values.
\<close>

definition dragUpdate ::
  "(real \<Rightarrow> string) \<Rightarrow> int list \<Rightarrow> real \<Rightarrow> real \<Rightarrow> Element list \<Rightarrow> Element list option" where
  "dragUpdate numToStr selected dx dy prevElements =
    map_option (map snd)
      (dragSelected numToStr dx dy selected
         (fold (\<lambda>el m. mapSet (elemId el) el m) prevElements []))"

subsection \<open>Pointer move\<close>

definition handleMouseMove :: "Browser \<Rightarrow> PointerEvent \<Rightarrow> Canvas \<Rightarrow> Canvas option" where
  "handleMouseMove br e st =
    (let currentPoint = canvasPoint e
     in if tool st = ToolPan \<and> dragState st = DragNone then Some st
        else if dragState st = Resizing \<and> resizingState st \<noteq> None then
          (let rs = the (resizingState st);
               newBounds = resizeBounds (handle rs) (initialSelectionBounds rs)
                             currentPoint (shiftKey e);
               scaleX = resizeScaleX (initialSelectionBounds rs) newBounds;
               scaleY = resizeScaleY (initialSelectionBounds rs) newBounds;
               origin = resizeOrigin (handle rs) (initialSelectionBounds rs)
           in Some (st\<lparr>elements := map (resizeElement (numberToString br) origin scaleX scaleY
                                         (initialElements rs)) (elements st),
                       setElementsCalls := setElementsCalls st @ [True]\<rparr>))
        else if dragState st = DraggingSelection \<and> lastDragPoint st \<noteq> None
                \<and> selectedElementIds st \<noteq> [] then
          (let dx = px currentPoint - px (the (lastDragPoint st));
               dy = py currentPoint - py (the (lastDragPoint st))
           in case dragUpdate (numberToString br) (selectedElementIds st) dx dy (elements st) of
                None \<Rightarrow> None
              | Some els \<Rightarrow>
                  Some (st\<lparr>elements := els,
                           setElementsCalls := setElementsCalls st @ [True],
                           lastDragPoint := Some currentPoint\<rparr>))
        else if dragState st = MarqueeSelect \<and> marquee st \<noteq> None then
          Some (st\<lparr>marquee := Some (fst (the (marquee st)), currentPoint)\<rparr>)
        else if dragState st = Drawing \<and> drawingElement st \<noteq> None
                \<and> points (the (drawingElement st)) \<noteq> None then
          (let prevElement = the (drawingElement st);
               newPoints = the (points prevElement)
           in Some (st\<lparr>drawingElement := Some (prevElement\<lparr>points := Some
                      (if elemType prevElement = Pen then newPoints @ [currentPoint]
                       else if length newPoints > 0
                       then newPoints[length newPoints - 1 := currentPoint]
                       else newPoints)\<rparr>)\<rparr>))
        else
          (case getHandleAtPoint br st currentPoint of
             None \<Rightarrow> None
           | Some h \<Rightarrow> Some (st\<lparr>hoveredHandle := h\<rparr>)))"

subsection \<open>Pointer up\<close>

text \<open>
  The filter of the pen simplification: the samples at the indices divisible by four,
  and the last one.
\<close>

definition simplifyPoints :: "Point list \<Rightarrow> Point list" where
  "simplifyPoints ps =
    map snd (filter (\<lambda>ip. fst ip mod 4 = 0 \<or> int (fst ip) = int (length ps) - 1)
               (zip [0 ..< length ps] ps))"

definition centerInside :: "Bounds \<Rightarrow> Point \<Rightarrow> bool" where
  "centerInside b c = (px c > minX b \<and> px c < maxX b \<and> py c > minY b \<and> py c < maxY b)"

definition marqueeBounds :: "Point \<times> Point \<Rightarrow> Bounds" where
  "marqueeBounds m =
    \<lparr>minX = min (px (fst m)) (px (snd m)), minY = min (py (fst m)) (py (snd m)),
     maxX = max (px (fst m)) (px (snd m)), maxY = max (py (fst m)) (py (snd m))\<rparr>"

text \<open>
  \<open>elements.filter(el => ...)\<close> of the marquee, with the center of each element
  computed in turn; \<open>None\<close> is the \<open>TypeError\<close> of a bounds computation.
\<close>

fun elementsInMarquee ::
  "(real \<Rightarrow> string \<Rightarrow> real) \<Rightarrow> Bounds \<Rightarrow> Element list \<Rightarrow> Element list option" where
  "elementsInMarquee measureText b [] = Some []"
| "elementsInMarquee measureText b (el # els) =
     (case getElementCenter measureText el of
        None \<Rightarrow> None
      | Some elCenter \<Rightarrow>
          map_option (\<lambda>r. if centerInside b elCenter then el # r else r)
            (elementsInMarquee measureText b els))"

definition idsInMarquee :: "(real \<Rightarrow> string \<Rightarrow> real) \<Rightarrow> Bounds \<Rightarrow> Element list \<Rightarrow> int list option" where
  "idsInMarquee measureText b els = map_option (map elemId) (elementsInMarquee measureText b els)"

definition handleMouseUp :: "Browser \<Rightarrow> PointerEvent \<Rightarrow> Canvas \<Rightarrow> Canvas option" where
  "handleMouseUp br e st =
    (if dragState st = DragNone then Some st
     else map_option (\<lambda>s. s\<lparr>dragState := DragNone\<rparr>)
      (if dragState st = Resizing then
         Some (st\<lparr>resizingState := None, setElementsCalls := setElementsCalls st @ [False]\<rparr>)
       else if dragState st = DraggingSelection then
         Some (st\<lparr>lastDragPoint := None, setElementsCalls := setElementsCalls st @ [False]\<rparr>)
       else if dragState st = MarqueeSelect \<and> marquee st \<noteq> None then
         (case idsInMarquee (measureTextWidth br) (marqueeBounds (the (marquee st)))
                 (elements st) of
            None \<Rightarrow> None
          | Some ids \<Rightarrow>
              Some (st\<lparr>selectedElementIds :=
                         fold setAdd ids (if shiftKey e then selectedElementIds st else []),
                       marquee := None\<rparr>))
       else if dragState st = Drawing \<and> drawingElement st \<noteq> None then
         (let de = the (drawingElement st)
          in if elemType de = Pen \<and> points de = None then None
             else if elemType de = Pen \<and> length (the (points de)) > 20 then
               Some (st\<lparr>elements := elements st @ [de\<lparr>points := Some (simplifyPoints (the (points de)))\<rparr>],
                        setElementsCalls := setElementsCalls st @ [False],
                        drawingElement := None\<rparr>)
             else
               Some (st\<lparr>elements := elements st @ [de],
                        setElementsCalls := setElementsCalls st @ [False],
                        drawingElement := None\<rparr>))
       else Some st))"

section \<open>Concrete inputs\<close>

text \<open>
  The style the host starts with, an element as the drawing tools create it, and a
  point, for the concrete instances below.
\<close>

definition plainStyle :: ElementStyle where
  "plainStyle = \<lparr>strokeColor = ''#111827'', fillColor = ''transparent'',
                  strokeWidth = 3, fontSize = Some 24\<rparr>"

definition shapeElement :: "int \<Rightarrow> ElementType \<Rightarrow> Point list \<Rightarrow> Element" where
  "shapeElement i ty ps =
    \<lparr>elemId = i, elemType = ty, style = plainStyle, isMap = None, points = Some ps,
     startElementId = None, endElementId = None, pathData = None, bounds = None,
     textContent = None, imageUrl = None, sourceStrokeColor = None\<rparr>"

definition pt :: "real \<Rightarrow> real \<Rightarrow> Point" where
  "pt a b = \<lparr>px = a, py = b\<rparr>"

definition pathElement :: "int \<Rightarrow> string \<Rightarrow> Bounds \<Rightarrow> Element" where
  "pathElement i d b =
    \<lparr>elemId = i, elemType = Path, style = plainStyle, isMap = None, points = Some [],
     startElementId = None, endElementId = None, pathData = Some d, bounds = Some b,
     textContent = None, imageUrl = None, sourceStrokeColor = None\<rparr>"

definition box :: "real \<Rightarrow> real \<Rightarrow> real \<Rightarrow> real \<Rightarrow> Bounds" where
  "box a b c d = \<lparr>minX = a, minY = b, maxX = c, maxY = d\<rparr>"


text \<open>
  The decimal numeral of an integer, which is what JavaScript's conversion of a number
  to a string gives for an integer below \<open>1e21\<close>.
\<close>

function showNat :: "nat \<Rightarrow> string" where
  "showNat n = (if n < 10 then [''0123456789'' ! n]
                else showNat (n div 10) @ [''0123456789'' ! (n mod 10)])"
  by pat_completeness auto
termination
  by (relation "measure id") auto

definition showInteger :: "real \<Rightarrow> string" where
  "showInteger r = (if r < 0 then CHR ''-'' # showNat (nat \<lfloor>- r\<rfloor>) else showNat (nat \<lfloor>r\<rfloor>))"

definition testBrowser :: Browser where
  "testBrowser = \<lparr>measureTextWidth = (\<lambda>fs t. fs * real (length t) / 2),
                   pathHitTest = (\<lambda>d w p. Inr True),
                   numberToString = showInteger\<rparr>"

text \<open>The canvas with the select tool, nothing selected and no gesture under way.\<close>

definition idleCanvas :: "Element list \<Rightarrow> Canvas" where
  "idleCanvas els =
    \<lparr>elements = els, selectedElementIds = [], tool = ToolSelect, toolStyle = plainStyle,
     panZoomScale = 1, dragState = DragNone, drawingElement = None, lastDragPoint = None,
     marquee = None, lastClickTime = 0, resizingState = None, hoveredHandle = None,
     setElementsCalls = [], hostCalls = [], consoleErrors = []\<rparr>"

definition pointerAt :: "bool \<Rightarrow> Point \<Rightarrow> PointerEvent" where
  "pointerAt shift p = \<lparr>button = 0, shiftKey = shift, canvasPoint = p\<rparr>"

text \<open>A pen stroke of 21 samples, and the canvas while a pen stroke is drawn.\<close>

definition stroke21 :: "Point list" where
  "stroke21 = [pt 0 0, pt 1 1, pt 2 2, pt 3 3, pt 4 4, pt 5 5, pt 6 6, pt 7 7, pt 8 8, pt 9 9,
               pt 10 10, pt 11 11, pt 12 12, pt 13 13, pt 14 14, pt 15 15, pt 16 16, pt 17 17,
               pt 18 18, pt 19 19, pt 20 20]"

definition penCanvas :: "Point list \<Rightarrow> Canvas" where
  "penCanvas ps = (idleCanvas [])\<lparr>tool := ToolPen, dragState := Drawing,
                     drawingElement := Some (shapeElement 7 Pen ps)\<rparr>"

text \<open>The two rectangles of the marquee example, and the canvas at the end of a marquee drag.\<close>

definition twoBoxes :: "Element list" where
  "twoBoxes = [shapeElement 1 Rectangle [pt 10 10, pt 20 20],
               shapeElement 2 Rectangle [pt 200 200, pt 210 210]]"


text \<open>The idle canvas with a selection.\<close>

definition selectedCanvas :: "Element list \<Rightarrow> int list \<Rightarrow> Canvas" where
  "selectedCanvas els ids = (idleCanvas els)\<lparr>selectedElementIds := ids\<rparr>"

text \<open>The canvas in the middle of a drag of the selection.\<close>

definition draggingCanvas :: "Element list \<Rightarrow> int list \<Rightarrow> Point \<Rightarrow> Canvas" where
  "draggingCanvas els ids p =
     (idleCanvas els)\<lparr>selectedElementIds := ids, dragState := DraggingSelection,
                       lastDragPoint := Some p\<rparr>"




text \<open>
  Two rectangles that carry the same id and differ in their stroke width, as a
  collection replaced from outside can hold them.
\<close>

definition twinBoxes :: "Element list" where
  "twinBoxes = [shapeElement 1 Rectangle [pt 10 10, pt 20 20],
                (shapeElement 1 Rectangle [pt 200 200, pt 210 210])
                  \<lparr>style := plainStyle\<lparr>strokeWidth := 8\<rparr>\<rparr>]"

text \<open>A rectangle alone, to be selected.\<close>

definition cornerBox :: "Element list" where
  "cornerBox = [shapeElement 1 Rectangle [pt 10 10, pt 20 20]]"

text \<open>A text element, selected, on a canvas that was clicked at time 900.\<close>

definition noteElement :: Element where
  "noteElement = (shapeElement 9 Text [pt 100 100])\<lparr>textContent := Some ''note''\<rparr>"

definition noteCanvas :: Canvas where
  "noteCanvas = (selectedCanvas [noteElement] [9])\<lparr>lastClickTime := 900\<rparr>"

section \<open>Predicates of the statements\<close>

text \<open>
  An element after an update has kept everything but its geometry: with the geometric
  fields (\<open>points\<close>, \<open>pathData\<close>, \<open>bounds\<close>) put back it is the element before. The
  same for an entry of the drag's \<open>Map\<close>, which also keeps its key.
\<close>

definition sameButGeometry :: "Element \<Rightarrow> Element \<Rightarrow> bool" where
  "sameButGeometry old new =
     (new\<lparr>points := points old, pathData := pathData old, bounds := bounds old\<rparr> = old)"

definition entryKept :: "int \<times> Element \<Rightarrow> int \<times> Element \<Rightarrow> bool" where
  "entryKept a b = (fst b = fst a \<and> sameButGeometry (snd a) (snd b))"


text \<open>
  The arguments of a path command come in complete groups: any number for \<open>H\<close> and
  \<open>V\<close> (and \<open>Z\<close>, which drops them), sevens for an arc, pairs for every other command.
  \<open>numbersOf\<close> are the numbers among emitted values.
\<close>

definition completeArgs :: "char \<Rightarrow> real list \<Rightarrow> bool" where
  "completeArgs command args =
     (if toUpperCase command = CHR ''Z'' \<or> toUpperCase command = CHR ''H''
         \<or> toUpperCase command = CHR ''V'' then True
      else if toUpperCase command = CHR ''A'' then length args mod 7 = 0
      else length args mod 2 = 0)"

definition numbersOf :: "jsnum list \<Rightarrow> real list" where
  "numbersOf vs = concat (map (\<lambda>v. case v of Num r \<Rightarrow> [r] | _ \<Rightarrow> []) vs)"



text \<open>
  A command as the transform writes it: closepath as \<open>Z\<close> without arguments, any other
  command with the numbers emitted for it. \<open>closepathUpper\<close> writes a closepath as
  \<open>Z\<close> without arguments and leaves every other command as it is.
\<close>

definition emittedCommand ::
  "real \<Rightarrow> real \<Rightarrow> Point \<Rightarrow> char \<times> real list \<Rightarrow> char \<times> real list" where
  "emittedCommand sx sy t m =
     (if toUpperCase (fst m) = CHR ''Z'' then (CHR ''Z'', [])
      else (fst m, numbersOf (transformArgs (fst m) (snd m) sx sy t)))"




section \<open>The path grammar\<close>




























subsection \<open>Notions of the proofs\<close>







section \<open>Degenerate lines are never hit\<close>

text \<open>
  Claim C10. For a line whose two endpoints coincide, the point-to-segment test
  \<open>isPointNearLine\<close> returns false for every query point and every threshold: the
  zero-length guard returns before the division. Hence \<open>isPointInElement\<close> never
  reports a \<open>line\<close> element with two coincident endpoints as hit.
\<close>

theorem isPointNearLine_degenerate:
  "isPointNearLine p p point threshold = False
   \<and> (elemType el = Line \<and> points el = Some [p, p]
        \<longrightarrow> isPointInElement measureText pathHit point el scale = Inr False)"
  by (simp add: isPointNearLine_def isPointInElement_def getElementBounds_def
      getRawElementBounds_def isCircleWithEdge_def isAnchoredText_def Let_def)

theorem isPointNearLine_degenerate_witness:
  "elemType (shapeElement 1 Line [pt 1 2, pt 1 2]) = Line
   \<and> points (shapeElement 1 Line [pt 1 2, pt 1 2]) = Some [pt 1 2, pt 1 2]
   \<and> isPointNearLine (pt 1 2) (pt 1 2) (pt 1 2) 100 = False
   \<and> isPointInElement (\<lambda>fs t. 0) (\<lambda>d w p. Inr True) (pt 1 2)
        (shapeElement 1 Line [pt 1 2, pt 1 2]) 1 = Inr False"
  using isPointNearLine_degenerate [of "pt 1 2" "pt 1 2" 100 "shapeElement 1 Line [pt 1 2, pt 1 2]"
      "\<lambda>fs t. 0" "\<lambda>d w p. Inr True" 1]
  by (simp add: shapeElement_def)

section \<open>Hit testing survives a failing element\<close>

lemma scanElements_result:
  "scanElements test els logged =
     (find (\<lambda>el. test el = Inr True) els,
      logged @ map (\<lambda>el. (elemId el, projl (test el)))
                 (filter (\<lambda>el. isl (test el)) (takeWhile (\<lambda>el. test el \<noteq> Inr True) els)))"
proof (induction els arbitrary: logged)
  case Nil
  show ?case by simp
next
  case (Cons el els)
  show ?case
  proof (cases "test el")
    case (Inl err)
    then show ?thesis using Cons.IH by simp
  next
    case (Inr b)
    then show ?thesis using Cons.IH by (cases b) simp_all
  qed
qed

text \<open>
  Claim C7. When the containment test of an element throws, the scan of
  \<open>getElementAtPoint\<close> does not abort: the result is the first element, from the top
  of the draw order down, whose test returns true (or none), and the log holds, in that
  order, exactly the elements whose test threw before that hit, each with its error. So
  every candidate after a throwing one is still tested, topmost first.
\<close>

theorem getElementAtPoint_skips_failures:
  "getElementAtPoint measureText pathHit scale els point =
     (find (\<lambda>el. isPointInElement measureText pathHit point el scale = Inr True) (rev els),
      map (\<lambda>el. (elemId el, projl (isPointInElement measureText pathHit point el scale)))
        (filter (\<lambda>el. isl (isPointInElement measureText pathHit point el scale))
           (takeWhile (\<lambda>el. isPointInElement measureText pathHit point el scale \<noteq> Inr True)
              (rev els))))"
  by (simp add: getElementAtPoint_def scanElements_result)

theorem getElementAtPoint_skips_failures_witness:
  "getElementAtPoint (\<lambda>fs t. 0) (\<lambda>d w p. Inl ''SyntaxError'') 1
     [shapeElement 1 Rectangle [pt 0 0, pt 10 10],
      pathElement 2 ''M 0 0 L 10 10'' (box 0 0 10 10),
      shapeElement 3 Line [pt 0 100, pt 100 100]] (pt 5 5)
   = (Some (shapeElement 1 Rectangle [pt 0 0, pt 10 10]), [(2, ''SyntaxError'')])"
  using getElementAtPoint_skips_failures [of "\<lambda>fs t. 0" "\<lambda>d w p. Inl ''SyntaxError''" 1
     "[shapeElement 1 Rectangle [pt 0 0, pt 10 10],
      pathElement 2 ''M 0 0 L 10 10'' (box 0 0 10 10),
      shapeElement 3 Line [pt 0 100, pt 100 100]]" "pt 5 5"]
  by (simp add: isPointInElement_def getElementBounds_def getRawElementBounds_def
      isCircleWithEdge_def isAnchoredText_def shapeElement_def pathElement_def box_def pt_def
      plainStyle_def truthyStr_def Let_def)

section \<open>Attachment points\<close>















text \<open>
  A path element whose stored bounds are inverted in \<open>x\<close>, \<open>(10,0)\<close>--\<open>(0,10)\<close>, and
  the target \<open>(8,5)\<close> at the height of its center \<open>(5,5)\<close>: the slope is zero, the
  half width is negative, and the \<open>x\<close> of the result is infinite.
\<close>

lemma getAttachmentPoint_inverted_bounds:
  "getElementCenter (\<lambda>fs t. 0) (pathElement 3 ''M 0 0'' (box 10 0 0 10)) = Some (pt 5 5)
   \<and> getAttachmentPoint (\<lambda>fs t. 0) (pathElement 3 ''M 0 0'' (box 10 0 0 10)) (pt 8 5)
       = Some (AttachedAtInfinity 0)"
  by (simp add: getAttachmentPoint_def getElementCenter_def getRawElementBounds_def
      pathElement_def box_def pt_def Let_def)

section \<open>Pen strokes are simplified on completion\<close>

lemma zip_indices: "zip [0..<length ps] ps = map (\<lambda>i. (i, ps ! i)) [0..<length ps]"
proof -
  have "zip [0..<length ps] ps = zip [0..<length ps] (map (\<lambda>i. ps ! i) [0..<length ps])"
    by (simp add: map_nth)
  also have "\<dots> = map (\<lambda>i. (i, ps ! i)) [0..<length ps]"
    by (simp add: zip_map2 zip_same_conv_map)
  finally show ?thesis .
qed

lemma simplifyPoints_indices:
  "simplifyPoints ps =
     map (\<lambda>i. ps ! i) (filter (\<lambda>i. i mod 4 = 0 \<or> Suc i = length ps) [0..<length ps])"
proof -
  have c: "(int i = int (length ps) - 1) = (Suc i = length ps)" for i by auto
  show ?thesis
    unfolding simplifyPoints_def zip_indices
    by (simp add: filter_map comp_def c)
qed

lemma kept_21: "filter (\<lambda>i. i mod 4 = 0 \<or> Suc i = 21) [0..<21] = [0, 4, 8, 12, 16, 20]"
  by code_simp

text \<open>
  Claim C4. On pointer-up ending a pen drawing gesture, the committed stroke is the
  drawn one when it has at most 20 points; when it has more, exactly the samples at the
  indices divisible by 4 and the last sample are kept, in order. For a stroke of 21
  points the kept indices are \<open>0, 4, 8, 12, 16, 20\<close>: point 20 appears once.
\<close>

theorem pen_stroke_simplified:
  "dragState st = Drawing \<and> drawingElement st = Some de \<and> elemType de = Pen
     \<and> points de = Some ps \<longrightarrow>
   handleMouseUp br e st =
     Some (st\<lparr>elements := elements st @
                [if length ps > 20
                 then de\<lparr>points := Some (map (\<lambda>i. ps ! i)
                        (filter (\<lambda>i. i mod 4 = 0 \<or> Suc i = length ps) [0..<length ps]))\<rparr>
                 else de],
              setElementsCalls := setElementsCalls st @ [False],
              drawingElement := None,
              dragState := DragNone\<rparr>)
   \<and> (length ps = 21 \<longrightarrow>
        filter (\<lambda>i. i mod 4 = 0 \<or> Suc i = length ps) [0..<length ps] = [0, 4, 8, 12, 16, 20])"
proof (intro conjI impI)
  assume "dragState st = Drawing \<and> drawingElement st = Some de \<and> elemType de = Pen
     \<and> points de = Some ps"
  then show "handleMouseUp br e st =
     Some (st\<lparr>elements := elements st @
                [if length ps > 20
                 then de\<lparr>points := Some (map (\<lambda>i. ps ! i)
                        (filter (\<lambda>i. i mod 4 = 0 \<or> Suc i = length ps) [0..<length ps]))\<rparr>
                 else de],
              setElementsCalls := setElementsCalls st @ [False],
              drawingElement := None,
              dragState := DragNone\<rparr>)"
    by (simp add: handleMouseUp_def simplifyPoints_indices Let_def)
next
  assume "length ps = 21"
  then show "filter (\<lambda>i. i mod 4 = 0 \<or> Suc i = length ps) [0..<length ps] = [0, 4, 8, 12, 16, 20]"
    by (simp only: kept_21)
qed


theorem pen_stroke_simplified_witness:
  "dragState (penCanvas stroke21) = Drawing
   \<and> drawingElement (penCanvas stroke21) = Some (shapeElement 7 Pen stroke21)
   \<and> elemType (shapeElement 7 Pen stroke21) = Pen
   \<and> points (shapeElement 7 Pen stroke21) = Some stroke21
   \<and> length stroke21 = 21
   \<and> map_option (\<lambda>s. map points (elements s))
        (handleMouseUp testBrowser (pointerAt False (pt 20 20)) (penCanvas stroke21))
       = Some [Some [pt 0 0, pt 4 4, pt 8 8, pt 12 12, pt 16 16, pt 20 20]]"
proof -
  have h: "dragState (penCanvas stroke21) = Drawing
     \<and> drawingElement (penCanvas stroke21) = Some (shapeElement 7 Pen stroke21)
     \<and> elemType (shapeElement 7 Pen stroke21) = Pen
     \<and> points (shapeElement 7 Pen stroke21) = Some stroke21"
    by (simp add: penCanvas_def idleCanvas_def shapeElement_def)
  have l: "length stroke21 = 21" by (simp add: stroke21_def)
  note t = pen_stroke_simplified [of "penCanvas stroke21" "shapeElement 7 Pen stroke21" stroke21
      testBrowser "pointerAt False (pt 20 20)"]
  from t h have r: "handleMouseUp testBrowser (pointerAt False (pt 20 20)) (penCanvas stroke21) =
     Some ((penCanvas stroke21)\<lparr>elements := elements (penCanvas stroke21) @
                [if length stroke21 > 20
                 then (shapeElement 7 Pen stroke21)\<lparr>points := Some (map (\<lambda>i. stroke21 ! i)
                        (filter (\<lambda>i. i mod 4 = 0 \<or> Suc i = length stroke21) [0..<length stroke21]))\<rparr>
                 else shapeElement 7 Pen stroke21],
              setElementsCalls := setElementsCalls (penCanvas stroke21) @ [False],
              drawingElement := None,
              dragState := DragNone\<rparr>)" by blast
  from t h l have k: "filter (\<lambda>i. i mod 4 = 0 \<or> Suc i = length stroke21) [0..<length stroke21]
      = [0, 4, 8, 12, 16, 20]" by blast
  have "map_option (\<lambda>s. map points (elements s))
        (handleMouseUp testBrowser (pointerAt False (pt 20 20)) (penCanvas stroke21))
       = Some [Some [pt 0 0, pt 4 4, pt 8 8, pt 12 12, pt 16 16, pt 20 20]]"
    unfolding r k by (simp add: l penCanvas_def idleCanvas_def stroke21_def)
  with h l show ?thesis by blast
qed

section \<open>Marquee selection\<close>

lemma wellTyped_bounds:
  "wellTyped el \<Longrightarrow> getRawElementBounds mt el \<noteq> None"
  by (cases "elemType el")
     (auto simp: wellTyped_def getRawElementBounds_def isCircleWithEdge_def isAnchoredText_def
        Let_def split: option.splits bool.splits list.splits)






section \<open>Clicking a selected element\<close>

text \<open>
  Claim C9, as the code has it. On pointer-down with the select tool and the primary
  button, over an element that is already in the selection, the selection set (and the
  element list) is left as it is, with or without the modifier key: a multi-element
  selection is not replaced by the clicked element. The drag of the selection begins
  when the point is on no resize handle of the selection and the click is not a
  double-click on a text element: the handler then returns with the state
  \<open>draggingSelection\<close>, the last drag point at the click point, and the full existing
  selection. On a resize handle the resize begins instead, and a double-click on a text
  element only calls the host.
\<close>

theorem click_on_selected_keeps_selection:
  "tool st = ToolSelect \<and> button e = 0
     \<and> fst (getElementAtPoint (measureTextWidth br) (pathHitTest br) (panZoomScale st)
              (elements st) (canvasPoint e)) = Some el
     \<and> elemId el \<in> set (selectedElementIds st) \<longrightarrow>
   (\<forall>s. handleMouseDown br clickTime newId e st = Some s \<longrightarrow>
        selectedElementIds s = selectedElementIds st \<and> elements s = elements st)
   \<and> (getHandleAtPoint br st (canvasPoint e) = Some None
        \<and> \<not> (clickTime - lastClickTime st < 300 \<and> elemType el = Text) \<longrightarrow>
      (\<exists>s. handleMouseDown br clickTime newId e st = Some s
         \<and> selectedElementIds s = selectedElementIds st
         \<and> dragState s = DraggingSelection
         \<and> lastDragPoint s = Some (canvasPoint e)))"
  by (auto simp add: handleMouseDown_def Let_def split: option.splits if_splits)

text \<open>
  A press on the corner \<open>(10,10)\<close> of the selected rectangle from \<open>(10,10)\<close> to
  \<open>(20,20)\<close> is over the element and on the north-west handle of its selection box:
  the resize begins, and there is no drag point. A double-click at \<open>(120,110)\<close> on the
  selected text element, 100 ms after the last click and off every handle, calls
  \<open>onElementDoubleClick\<close> and begins no gesture.
\<close>

theorem click_on_selected_counterexample:
  "fst (getElementAtPoint (measureTextWidth testBrowser) (pathHitTest testBrowser) 1
          cornerBox (pt 10 10))
     = Some (shapeElement 1 Rectangle [pt 10 10, pt 20 20])
   \<and> getHandleAtPoint testBrowser (selectedCanvas cornerBox [1]) (pt 10 10)
       = Some (Some HandleNW)
   \<and> map_option (\<lambda>s. (selectedElementIds s, dragState s, lastDragPoint s))
        (handleMouseDown testBrowser 1000 1001 (pointerAt False (pt 10 10))
           (selectedCanvas cornerBox [1]))
       = Some ([1], Resizing, None)
   \<and> fst (getElementAtPoint (measureTextWidth testBrowser) (pathHitTest testBrowser) 1
            [noteElement] (pt 120 110))
       = Some noteElement
   \<and> getHandleAtPoint testBrowser noteCanvas (pt 120 110) = Some None
   \<and> map_option (\<lambda>s. (selectedElementIds s, dragState s, lastDragPoint s, hostCalls s))
        (handleMouseDown testBrowser 1000 1001 (pointerAt False (pt 120 110)) noteCanvas)
       = Some ([9], DragNone, None, [OnElementDoubleClick 9])"
proof -
  have rb: "getElementsBounds (measureTextWidth testBrowser) cornerBox = Some (box 10 10 20 20)"
    by (simp add: getElementsBounds_def getRawElementBounds_def isCircleWithEdge_def
        isAnchoredText_def cornerBox_def shapeElement_def pt_def box_def)
  have rs: "selectedElements (selectedCanvas cornerBox [1]) = cornerBox"
    by (simp add: selectedElements_def selectedCanvas_def idleCanvas_def cornerBox_def
        shapeElement_def)
  have rsb: "getElementsBounds (measureTextWidth testBrowser)
      (selectedElements (selectedCanvas cornerBox [1])) = Some (box 10 10 20 20)"
    by (simp only: rs rb)
  have rhit: "getElementAtPoint (measureTextWidth testBrowser) (pathHitTest testBrowser) 1
      cornerBox (pt 10 10) = (Some (shapeElement 1 Rectangle [pt 10 10, pt 20 20]), [])"
    by (simp add: getElementAtPoint_def isPointInElement_def getElementBounds_def
        getRawElementBounds_def isCircleWithEdge_def isAnchoredText_def cornerBox_def
        shapeElement_def plainStyle_def pt_def Let_def)
  have rh: "getHandleAtPoint testBrowser (selectedCanvas cornerBox [1]) (pt 10 10)
      = Some (Some HandleNW)"
    using rsb
    by (simp add: getHandleAtPoint_def getHandles_def box_def pt_def
        selectedCanvas_def idleCanvas_def Let_def)
  have rd: "map_option (\<lambda>s. (selectedElementIds s, dragState s, lastDragPoint s))
        (handleMouseDown testBrowser 1000 1001 (pointerAt False (pt 10 10))
           (selectedCanvas cornerBox [1])) = Some ([1], Resizing, None)"
  proof -
    have h: "getHandleAtPoint testBrowser (selectedCanvas cornerBox [1])
        (canvasPoint (pointerAt False (pt 10 10))) = Some (Some HandleNW)"
      using rh by (simp add: pointerAt_def)
    have t: "tool (selectedCanvas cornerBox [1]) = ToolSelect"
      "button (pointerAt False (pt 10 10)) = 0"
      by (simp_all add: selectedCanvas_def idleCanvas_def pointerAt_def)
    show ?thesis
      unfolding handleMouseDown_def
      by (simp add: t h rsb Let_def) (simp add: selectedCanvas_def idleCanvas_def)
  qed
  have nb: "getElementsBounds (measureTextWidth testBrowser) [noteElement]
      = Some (box 100 100 148 124)"
    by (simp add: getElementsBounds_def getRawElementBounds_def isCircleWithEdge_def
        isAnchoredText_def truthyStr_def fontSizeOr24_def noteElement_def shapeElement_def
        plainStyle_def testBrowser_def pt_def box_def Let_def)
  have ns: "selectedElements noteCanvas = [noteElement]"
    by (simp add: selectedElements_def noteCanvas_def selectedCanvas_def idleCanvas_def
        noteElement_def shapeElement_def)
  have nsb: "getElementsBounds (measureTextWidth testBrowser) (selectedElements noteCanvas)
      = Some (box 100 100 148 124)"
    by (simp only: ns nb)
  have nhit: "getElementAtPoint (measureTextWidth testBrowser) (pathHitTest testBrowser) 1
      [noteElement] (pt 120 110) = (Some noteElement, [])"
    by (simp add: getElementAtPoint_def isPointInElement_def getElementBounds_def
        getRawElementBounds_def isCircleWithEdge_def isAnchoredText_def truthyStr_def
        fontSizeOr24_def noteElement_def shapeElement_def plainStyle_def testBrowser_def
        pt_def Let_def)
  have nh: "getHandleAtPoint testBrowser noteCanvas (pt 120 110) = Some None"
  proof -
    have "selectedElementIds noteCanvas \<noteq> []" "panZoomScale noteCanvas = 1"
      by (simp_all add: noteCanvas_def selectedCanvas_def idleCanvas_def)
    then show ?thesis
      using nsb by (simp add: getHandleAtPoint_def getHandles_def box_def pt_def Let_def)
  qed
  have nd: "map_option (\<lambda>s. (selectedElementIds s, dragState s, lastDragPoint s, hostCalls s))
        (handleMouseDown testBrowser 1000 1001 (pointerAt False (pt 120 110)) noteCanvas)
       = Some ([9], DragNone, None, [OnElementDoubleClick 9])"
  proof -
    have 1: "getHandleAtPoint testBrowser noteCanvas
        (canvasPoint (pointerAt False (pt 120 110))) = Some None"
      using nh by (simp add: pointerAt_def)
    have 2: "getElementAtPoint (measureTextWidth testBrowser) (pathHitTest testBrowser)
        (panZoomScale noteCanvas) (elements noteCanvas)
        (canvasPoint (pointerAt False (pt 120 110))) = (Some noteElement, [])"
      using nhit by (simp add: noteCanvas_def selectedCanvas_def idleCanvas_def pointerAt_def)
    have 3: "tool noteCanvas = ToolSelect" "button (pointerAt False (pt 120 110)) = 0"
      "lastClickTime noteCanvas = 900" "elemType noteElement = Text"
      "elemId noteElement = 9"
      by (simp_all add: noteCanvas_def selectedCanvas_def idleCanvas_def pointerAt_def
          noteElement_def shapeElement_def)
    show ?thesis
      unfolding handleMouseDown_def
      by (simp add: Let_def 1 2 3) (simp add: noteCanvas_def selectedCanvas_def idleCanvas_def)
  qed
  from rhit rh rd nhit nh nd show ?thesis by simp
qed

lemma twoBoxes_bounds:
  "getElementsBounds (measureTextWidth testBrowser) twoBoxes = Some (box 10 10 210 210)"
  by (simp add: getElementsBounds_def getRawElementBounds_def isCircleWithEdge_def
      isAnchoredText_def twoBoxes_def shapeElement_def pt_def box_def)

lemma twoBoxes_hit:
  "getElementAtPoint (measureTextWidth testBrowser) (pathHitTest testBrowser) 1 twoBoxes (pt 15 15)
     = (Some (shapeElement 1 Rectangle [pt 10 10, pt 20 20]), [])"
  by (simp add: getElementAtPoint_def isPointInElement_def getElementBounds_def
      getRawElementBounds_def isCircleWithEdge_def isAnchoredText_def twoBoxes_def
      shapeElement_def plainStyle_def pt_def Let_def)

lemma twoBoxes_no_handle:
  "getHandleAtPoint testBrowser (selectedCanvas twoBoxes [1, 2]) (pt 15 15) = Some None"
proof -
  have "selectedElements (selectedCanvas twoBoxes [1, 2]) = twoBoxes"
    by (simp add: selectedElements_def selectedCanvas_def idleCanvas_def twoBoxes_def
        shapeElement_def)
  then show ?thesis
    by (simp add: getHandleAtPoint_def twoBoxes_bounds getHandles_def box_def pt_def
        selectedCanvas_def idleCanvas_def Let_def)
qed

theorem click_on_selected_keeps_selection_witness:
  "tool (selectedCanvas twoBoxes [1, 2]) = ToolSelect
   \<and> button (pointerAt False (pt 15 15)) = 0
   \<and> fst (getElementAtPoint (measureTextWidth testBrowser) (pathHitTest testBrowser)
            (panZoomScale (selectedCanvas twoBoxes [1, 2]))
            (elements (selectedCanvas twoBoxes [1, 2])) (canvasPoint (pointerAt False (pt 15 15))))
       = Some (shapeElement 1 Rectangle [pt 10 10, pt 20 20])
   \<and> elemId (shapeElement 1 Rectangle [pt 10 10, pt 20 20])
       \<in> set (selectedElementIds (selectedCanvas twoBoxes [1, 2]))
   \<and> getHandleAtPoint testBrowser (selectedCanvas twoBoxes [1, 2])
        (canvasPoint (pointerAt False (pt 15 15))) = Some None
   \<and> map_option (\<lambda>s. (selectedElementIds s, dragState s, lastDragPoint s))
        (handleMouseDown testBrowser 1000 1001 (pointerAt False (pt 15 15))
           (selectedCanvas twoBoxes [1, 2]))
       = Some ([1, 2], DraggingSelection, Some (pt 15 15))"
proof -
  have h: "tool (selectedCanvas twoBoxes [1, 2]) = ToolSelect
     \<and> button (pointerAt False (pt 15 15)) = 0
     \<and> fst (getElementAtPoint (measureTextWidth testBrowser) (pathHitTest testBrowser)
            (panZoomScale (selectedCanvas twoBoxes [1, 2]))
            (elements (selectedCanvas twoBoxes [1, 2])) (canvasPoint (pointerAt False (pt 15 15))))
         = Some (shapeElement 1 Rectangle [pt 10 10, pt 20 20])
     \<and> elemId (shapeElement 1 Rectangle [pt 10 10, pt 20 20])
         \<in> set (selectedElementIds (selectedCanvas twoBoxes [1, 2]))"
    using twoBoxes_hit
    by (simp add: selectedCanvas_def idleCanvas_def pointerAt_def shapeElement_def)
  have n: "getHandleAtPoint testBrowser (selectedCanvas twoBoxes [1, 2])
        (canvasPoint (pointerAt False (pt 15 15))) = Some None"
    using twoBoxes_no_handle by (simp add: pointerAt_def)
  have t: "\<not> ((1000::int) - lastClickTime (selectedCanvas twoBoxes [1, 2]) < 300
      \<and> elemType (shapeElement 1 Rectangle [pt 10 10, pt 20 20]) = Text)"
    by (simp add: selectedCanvas_def idleCanvas_def)
  from click_on_selected_keeps_selection [of "selectedCanvas twoBoxes [1, 2]"
      "pointerAt False (pt 15 15)" testBrowser "shapeElement 1 Rectangle [pt 10 10, pt 20 20]"
      1000 1001] h n t
  obtain s where s: "handleMouseDown testBrowser 1000 1001 (pointerAt False (pt 15 15))
           (selectedCanvas twoBoxes [1, 2]) = Some s"
    "selectedElementIds s = selectedElementIds (selectedCanvas twoBoxes [1, 2])"
    "dragState s = DraggingSelection"
    "lastDragPoint s = Some (canvasPoint (pointerAt False (pt 15 15)))"
    by blast
  have "map_option (\<lambda>s. (selectedElementIds s, dragState s, lastDragPoint s))
        (handleMouseDown testBrowser 1000 1001 (pointerAt False (pt 15 15))
           (selectedCanvas twoBoxes [1, 2]))
       = Some ([1, 2], DraggingSelection, Some (pt 15 15))"
    using s by (simp add: selectedCanvas_def idleCanvas_def pointerAt_def)
  with h n show ?thesis by blast
qed

section \<open>Pointer moves keep identity and style\<close>

lemma sameButGeometry_refl: "sameButGeometry el el"
  by (simp add: sameButGeometry_def)

lemma sameButGeometry_trans:
  "sameButGeometry a b \<Longrightarrow> sameButGeometry b c \<Longrightarrow> sameButGeometry a c"
  unfolding sameButGeometry_def
  by (cases a, cases b, cases c) simp

lemma sameButGeometry_id_style:
  "sameButGeometry old new \<Longrightarrow> elemId new = elemId old \<and> style new = style old"
  unfolding sameButGeometry_def
  by (cases old, cases new) simp

lemma sameButGeometry_props:
  "sameButGeometry old new \<Longrightarrow>
     elemId new = elemId old \<and> style new = style old
     \<and> new\<lparr>points := points old, pathData := pathData old, bounds := bounds old\<rparr> = old"
  unfolding sameButGeometry_def
  by (cases old, cases new) simp

lemma resizeElement_frame:
  "sameButGeometry el (resizeElement n origin sx sy initialEls el)"
  by (simp add: resizeElement_def sameButGeometry_def Let_def split: option.splits)

lemma dragElement_frame:
  "dragElement n dx dy el = Some el' \<Longrightarrow> sameButGeometry el el'"
  by (auto simp: dragElement_def sameButGeometry_def split: if_splits option.splits)

lemma mapSet_fresh: "k \<notin> fst ` set m \<Longrightarrow> mapSet k v m = m @ [(k, v)]"
  by (induction m) auto

lemma fold_mapSet_distinct:
  "distinct (map elemId els) \<Longrightarrow> \<forall>el\<in>set els. elemId el \<notin> fst ` set acc \<Longrightarrow>
   fold (\<lambda>el m. mapSet (elemId el) el m) els acc = acc @ map (\<lambda>el. (elemId el, el)) els"
proof (induction els arbitrary: acc)
  case Nil
  show ?case by simp
next
  case (Cons el els)
  have f: "mapSet (elemId el) el acc = acc @ [(elemId el, el)]"
    using Cons.prems(2) by (simp add: mapSet_fresh)
  have "\<forall>x\<in>set els. elemId x \<notin> fst ` set (acc @ [(elemId el, el)])"
    using Cons.prems by (force simp: image_iff)
  with Cons.IH[of "acc @ [(elemId el, el)]"] Cons.prems(1) f show ?case by simp
qed

lemma mapSet_kept:
  "map_of m i = Some el \<Longrightarrow> sameButGeometry el el' \<Longrightarrow> list_all2 entryKept m (mapSet i el' m)"
proof (induction m)
  case Nil
  then show ?case by simp
next
  case (Cons kv m)
  have r: "list_all2 entryKept m m"
    by (simp add: list_all2_same entryKept_def sameButGeometry_refl)
  show ?case
  proof (cases "fst kv = i")
    case True
    with Cons.prems have "snd kv = el" by (cases kv) simp
    with True Cons.prems(2) have "entryKept kv (i, el')" by (simp add: entryKept_def)
    with True r show ?thesis by simp
  next
    case False
    with Cons.prems have "map_of m i = Some el" by (cases kv) (simp split: if_splits)
    with Cons.IH Cons.prems(2) have "list_all2 entryKept m (mapSet i el' m)" by simp
    moreover have "entryKept kv kv" by (simp add: entryKept_def sameButGeometry_refl)
    ultimately show ?thesis using False by simp
  qed
qed

lemma entryKept_trans: "entryKept a b \<Longrightarrow> entryKept b c \<Longrightarrow> entryKept a c"
  using sameButGeometry_trans by (auto simp: entryKept_def)

lemma dragSelected_kept:
  "dragSelected n dx dy ids m = Some m' \<Longrightarrow> list_all2 entryKept m m'"
proof (induction ids arbitrary: m)
  case Nil
  then show ?case by (simp add: list_all2_same entryKept_def sameButGeometry_refl)
next
  case (Cons i ids)
  show ?case
  proof (cases "map_of m i")
    case None
    with Cons show ?thesis by simp
  next
    case (Some el)
    with Cons.prems obtain el' where d: "dragElement n dx dy el = Some el'"
      and r: "dragSelected n dx dy ids (mapSet i el' m) = Some m'"
      by (auto split: option.splits)
    have 1: "list_all2 entryKept m (mapSet i el' m)"
      using mapSet_kept[OF Some dragElement_frame[OF d]] .
    have 2: "list_all2 entryKept (mapSet i el' m) m'" using Cons.IH[OF r] .
    from 1 2 show ?thesis
      by (rule list_all2_trans[rotated]) (rule entryKept_trans)
  qed
qed

lemma dragUpdate_kept:
  assumes "distinct (map elemId els)" "dragUpdate n sel dx dy els = Some els'"
  shows "list_all2 sameButGeometry els els'"
proof -
  have m0: "fold (\<lambda>el m. mapSet (elemId el) el m) els [] = map (\<lambda>el. (elemId el, el)) els"
    using fold_mapSet_distinct[OF assms(1), of "[]"] by simp
  from assms(2) obtain m' where
    d: "dragSelected n dx dy sel (map (\<lambda>el. (elemId el, el)) els) = Some m'"
    and e: "els' = map snd m'"
    by (auto simp: dragUpdate_def m0)
  have "list_all2 entryKept (map (\<lambda>el. (elemId el, el)) els) m'"
    using dragSelected_kept[OF d] .
  then have "list_all2 (\<lambda>el kv. sameButGeometry el (snd kv)) els m'"
    by (simp add: list_all2_map1) (erule list_all2_mono, simp add: entryKept_def)
  then show ?thesis
    unfolding e by (simp add: list_all2_map2)
qed


lemma dragElement_wellTyped:
  "wellTyped el \<Longrightarrow> \<exists>el'. dragElement n dx dy el = Some el' \<and> wellTyped el'"
  by (cases "elemType el") (auto simp: dragElement_def wellTyped_def)

lemma map_of_value: "map_of m i = Some el \<Longrightarrow> el \<in> snd ` set m"
  by (induction m) (auto split: if_splits)

lemma mapSet_values: "snd ` set (mapSet k v m) \<subseteq> insert v (snd ` set m)"
  by (induction m) auto

lemma fold_mapSet_values:
  "snd ` set (fold (\<lambda>el m. mapSet (elemId el) el m) els acc) \<subseteq> set els \<union> snd ` set acc"
proof (induction els arbitrary: acc)
  case Nil
  show ?case by simp
next
  case (Cons el els)
  show ?case
    using Cons.IH[of "mapSet (elemId el) el acc"] mapSet_values[of "elemId el" el acc]
    by auto
qed

lemma dragSelected_total:
  "\<forall>el\<in>snd ` set m. wellTyped el \<Longrightarrow> dragSelected n dx dy ids m \<noteq> None"
proof (induction ids arbitrary: m)
  case Nil
  show ?case by simp
next
  case (Cons i ids)
  show ?case
  proof (cases "map_of m i")
    case None
    with Cons show ?thesis by simp
  next
    case (Some el)
    have "el \<in> snd ` set m" using map_of_value[OF Some] .
    then have "wellTyped el" using Cons.prems by auto
    then obtain el' where d: "dragElement n dx dy el = Some el'" and w: "wellTyped el'"
      using dragElement_wellTyped[of el n dx dy] by auto
    have "\<forall>x\<in>insert el' (snd ` set m). wellTyped x"
      using w Cons.prems by auto
    then have "\<forall>x\<in>snd ` set (mapSet i el' m). wellTyped x"
      using mapSet_values[of i el' m] by (meson subsetD)
    then have "dragSelected n dx dy ids (mapSet i el' m) \<noteq> None" by (rule Cons.IH)
    with Some d show ?thesis by simp
  qed
qed

lemma dragUpdate_total:
  "\<forall>el\<in>set els. wellTyped el \<Longrightarrow> dragUpdate n sel dx dy els \<noteq> None"
proof -
  assume w: "\<forall>el\<in>set els. wellTyped el"
  have "\<forall>el\<in>snd ` set (fold (\<lambda>el m. mapSet (elemId el) el m) els []). wellTyped el"
    using fold_mapSet_values[of els "[]"] w by auto
  then show ?thesis
    using dragSelected_total by (simp add: dragUpdate_def)
qed

lemma those_total: "\<forall>x\<in>set xs. f x \<noteq> None \<Longrightarrow> those (map f xs) \<noteq> None"
  by (induction xs) (auto split: option.splits)

lemma getHandleAtPoint_total:
  "\<forall>el\<in>set (elements st). wellTyped el \<Longrightarrow> getHandleAtPoint br st p \<noteq> None"
proof -
  assume w: "\<forall>el\<in>set (elements st). wellTyped el"
  have "\<forall>el\<in>set (selectedElements st). getRawElementBounds (measureTextWidth br) el \<noteq> None"
    using w wellTyped_bounds by (simp add: selectedElements_def)
  then have "getElementsBounds (measureTextWidth br) (selectedElements st) \<noteq> None"
    using those_total by (simp add: getElementsBounds_def)
  then show ?thesis
    by (auto simp: getHandleAtPoint_def)
qed

text \<open>
  Claim C8, as the code has it. A pointer move, whatever it does (the resize
  remapping, the drag translation, or no change of the elements), returns an element
  list of the same length in which every element has the numeric identity and the style
  record it had, and differs from the old one at most in \<open>points\<close>, \<open>pathData\<close> and
  \<open>bounds\<close>; for the drag, which rebuilds the list through a \<open>Map\<close> keyed by id,
  this holds when the ids of the elements are pairwise distinct. With elements that have
  the fields \<open>types.ts\<close> declares the handler throws no \<open>TypeError\<close>.
\<close>

theorem pointer_move_keeps_identity_and_style:
  "(dragState st = DraggingSelection \<longrightarrow> distinct (map elemId (elements st))) \<longrightarrow>
   (\<forall>st'. handleMouseMove br e st = Some st' \<longrightarrow>
      list_all2 (\<lambda>old new. elemId new = elemId old \<and> style new = style old
                   \<and> new\<lparr>points := points old, pathData := pathData old,
                          bounds := bounds old\<rparr> = old)
        (elements st) (elements st'))
   \<and> ((\<forall>el\<in>set (elements st). wellTyped el) \<longrightarrow> handleMouseMove br e st \<noteq> None)"
proof (intro impI conjI allI)
  fix st'
  assume d: "dragState st = DraggingSelection \<longrightarrow> distinct (map elemId (elements st))"
    and m: "handleMouseMove br e st = Some st'"
  have same: "list_all2 sameButGeometry (elements st) (elements st)"
    by (simp add: list_all2_same sameButGeometry_refl)
  have "list_all2 sameButGeometry (elements st) (elements st')"
  proof (cases "dragState st = Resizing \<and> resizingState st \<noteq> None")
    case True
    with m show ?thesis
      by (auto simp: handleMouseMove_def Let_def list_all2_map2 list_all2_same
          resizeElement_frame split: if_splits)
  next
    case notResize: False
    show ?thesis
    proof (cases "dragState st = DraggingSelection \<and> lastDragPoint st \<noteq> None
                   \<and> selectedElementIds st \<noteq> []")
      case True
      with m notResize obtain els where
        u: "dragUpdate (numberToString br) (selectedElementIds st)
              (px (canvasPoint e) - px (the (lastDragPoint st)))
              (py (canvasPoint e) - py (the (lastDragPoint st))) (elements st) = Some els"
        and s: "elements st' = els"
        by (auto simp: handleMouseMove_def Let_def split: if_splits option.splits)
      from True d have "distinct (map elemId (elements st))" by simp
      from dragUpdate_kept[OF this u] s show ?thesis by simp
    next
      case False
      with m notResize have "elements st' = elements st"
        by (auto simp: handleMouseMove_def Let_def split: if_splits option.splits)
      with same show ?thesis by simp
    qed
  qed
  then show "list_all2 (\<lambda>old new. elemId new = elemId old \<and> style new = style old
                   \<and> new\<lparr>points := points old, pathData := pathData old,
                          bounds := bounds old\<rparr> = old)
        (elements st) (elements st')"
    by (rule list_all2_mono) (simp add: sameButGeometry_props)
next
  assume w: "\<forall>el\<in>set (elements st). wellTyped el"
  obtain els where u: "dragUpdate (numberToString br) (selectedElementIds st)
              (px (canvasPoint e) - px (the (lastDragPoint st)))
              (py (canvasPoint e) - py (the (lastDragPoint st))) (elements st) = Some els"
    using dragUpdate_total[OF w] by blast
  obtain h where h: "getHandleAtPoint br st (canvasPoint e) = Some h"
    using getHandleAtPoint_total[OF w] by blast
  show "handleMouseMove br e st \<noteq> None"
    by (simp add: handleMouseMove_def Let_def u h)
qed


text \<open>
  Two rectangles with the id 1 and the stroke widths 3 and 8: the \<open>Map\<close> of the drag
  keeps one entry for the id 1, with the second rectangle; the drag returns one element
  for two, and the element that stands where the first rectangle stood has the style of
  the second.
\<close>

theorem pointer_move_repeated_id_counterexample:
  "map (\<lambda>el. (elemId el, strokeWidth (style el), points el)) twinBoxes
     = [(1, 3, Some [pt 10 10, pt 20 20]), (1, 8, Some [pt 200 200, pt 210 210])]
   \<and> map_option (\<lambda>s. map (\<lambda>el. (elemId el, strokeWidth (style el), points el)) (elements s))
        (handleMouseMove testBrowser (pointerAt False (pt 5 (-3)))
           (draggingCanvas twinBoxes [1] (pt 0 0)))
       = Some [(1, 8, Some [pt 205 197, pt 215 207])]"
  by (simp add: handleMouseMove_def dragUpdate_def dragElement_def movePoint_def
      draggingCanvas_def idleCanvas_def twinBoxes_def shapeElement_def plainStyle_def
      pt_def pointerAt_def testBrowser_def Let_def)

theorem pointer_move_keeps_identity_and_style_witness:
  "dragState (draggingCanvas twoBoxes [1] (pt 0 0)) = DraggingSelection
   \<and> distinct (map elemId (elements (draggingCanvas twoBoxes [1] (pt 0 0))))
   \<and> list_all wellTyped (elements (draggingCanvas twoBoxes [1] (pt 0 0)))
   \<and> map_option (\<lambda>s. map (\<lambda>el. (elemId el, style el, points el)) (elements s))
        (handleMouseMove testBrowser (pointerAt False (pt 5 (-3)))
           (draggingCanvas twoBoxes [1] (pt 0 0)))
       = Some [(1, plainStyle, Some [pt 15 7, pt 25 17]),
               (2, plainStyle, Some [pt 200 200, pt 210 210])]"
  using pointer_move_keeps_identity_and_style [of "draggingCanvas twoBoxes [1] (pt 0 0)"
      testBrowser "pointerAt False (pt 5 (-3))"]
  by (simp add: handleMouseMove_def dragUpdate_def dragElement_def movePoint_def
      draggingCanvas_def idleCanvas_def twoBoxes_def shapeElement_def pt_def pointerAt_def
      testBrowser_def wellTyped_def Let_def)

section \<open>Resizing and raster elements\<close>










section \<open>The redraw callback of the image cache\<close>

















section \<open>The path transform on complete commands\<close>

lemma numbersOf_Num: "numbersOf (map Num ys) = ys"
  by (induction ys) (simp_all add: numbersOf_def)

lemma pairLoop_Nil: "pairLoop [] sx sy tx ty = []"
  by simp

lemma pairLoop_pair:
  "pairLoop (a # b # rest) sx sy tx ty =
     Num (a * sx + tx) # Num (b * sy + ty) # pairLoop rest sx sy tx ty"
  by (simp add: argAt_def)

lemma arcLoop_Nil: "arcLoop [] sx sy tx ty = []"
  by simp

lemma arcLoop_seven:
  "arcLoop (a0 # a1 # a2 # a3 # a4 # a5 # a6 # rest) sx sy tx ty =
     Num (a0 * \<bar>sx\<bar>) # Num (a1 * \<bar>sy\<bar>) # Num a2 # Num a3 # Num a4
       # Num (a5 * sx + tx) # Num (a6 * sy + ty) # arcLoop rest sx sy tx ty"
  by (simp add: argAt_def)

lemma pairs_induct [consumes 1, case_names Nil Pair]:
  assumes "length xs mod 2 = 0" "P []"
    "\<And>a b rest. length rest mod 2 = 0 \<Longrightarrow> P rest \<Longrightarrow> P (a # b # rest)"
  shows "P xs"
  using assms(1)
proof (induction xs rule: length_induct)
  case (1 xs)
  show ?case
  proof (cases xs)
    case Nil
    then show ?thesis using assms(2) by simp
  next
    case (Cons a ys)
    show ?thesis
    proof (cases ys)
      case Nil
      with Cons 1(2) show ?thesis by simp
    next
      case (Cons b rest)
      with \<open>xs = a # ys\<close> 1(2) have e: "length rest mod 2 = 0" by simp
      have "length rest < length xs" using Cons \<open>xs = a # ys\<close> by simp
      with 1(1) e have "P rest" by simp
      with assms(3) e Cons \<open>xs = a # ys\<close> show ?thesis by simp
    qed
  qed
qed

lemma sevens_induct [consumes 1, case_names Nil Seven]:
  assumes "length xs mod 7 = 0" "P []"
    "\<And>a0 a1 a2 a3 a4 a5 a6 rest. length rest mod 7 = 0 \<Longrightarrow> P rest
        \<Longrightarrow> P (a0 # a1 # a2 # a3 # a4 # a5 # a6 # rest)"
  shows "P xs"
  using assms(1)
proof (induction xs rule: length_induct)
  case (1 xs)
  show ?case
  proof (cases "xs = []")
    case True
    then show ?thesis using assms(2) by simp
  next
    case False
    with 1(2) have "7 \<le> length xs" by (cases "length xs < 7") auto
    then obtain a0 a1 a2 a3 a4 a5 a6 rest where
      xs: "xs = a0 # a1 # a2 # a3 # a4 # a5 # a6 # rest"
      by (cases xs; simp; rename_tac b bs; case_tac bs; simp; rename_tac c cs; case_tac cs; simp;
          rename_tac d ds; case_tac ds; simp; rename_tac e es; case_tac es; simp;
          rename_tac f fs; case_tac fs; simp; rename_tac g gs; case_tac gs; simp)
    with 1(2) have e: "length rest mod 7 = 0" by simp
    have "length rest < length xs" using xs by simp
    with 1(1) e have "P rest" by simp
    with assms(3) e xs show ?thesis by simp
  qed
qed


declare pairLoop.simps [simp del] arcLoop.simps [simp del]



lemma pairLoop_numbers:
  "length args mod 2 = 0 \<Longrightarrow>
   \<exists>ys. pairLoop args sx sy tx ty = map Num ys \<and> length ys = length args"
proof (induction args rule: pairs_induct)
  case Nil
  show ?case by (simp add: pairLoop_Nil)
next
  case (Pair a b rest)
  then obtain ys where "pairLoop rest sx sy tx ty = map Num ys" "length ys = length rest"
    by blast
  then have "pairLoop (a # b # rest) sx sy tx ty = map Num ((a * sx + tx) # (b * sy + ty) # ys)
      \<and> length ((a * sx + tx) # (b * sy + ty) # ys) = length (a # b # rest)"
    by (simp add: pairLoop_pair)
  then show ?case by blast
qed



lemma arcLoop_numbers:
  "length args mod 7 = 0 \<Longrightarrow>
   \<exists>ys. arcLoop args sx sy tx ty = map Num ys \<and> length ys = length args"
proof (induction args rule: sevens_induct)
  case Nil
  show ?case by (simp add: arcLoop_Nil)
next
  case (Seven a0 a1 a2 a3 a4 a5 a6 rest)
  then obtain ys where "arcLoop rest sx sy tx ty = map Num ys" "length ys = length rest"
    by blast
  then have "arcLoop (a0 # a1 # a2 # a3 # a4 # a5 # a6 # rest) sx sy tx ty
        = map Num (a0 * \<bar>sx\<bar> # a1 * \<bar>sy\<bar> # a2 # a3 # a4 # (a5 * sx + tx) # (a6 * sy + ty) # ys)
      \<and> length (a0 * \<bar>sx\<bar> # a1 * \<bar>sy\<bar> # a2 # a3 # a4 # (a5 * sx + tx) # (a6 * sy + ty) # ys)
        = length (a0 # a1 # a2 # a3 # a4 # a5 # a6 # rest)"
    by (simp add: arcLoop_seven)
  then show ?case by blast
qed



lemma transformArgs_numbers:
  "completeArgs command args \<Longrightarrow> toUpperCase command \<noteq> CHR ''Z'' \<Longrightarrow>
   \<exists>ys. transformArgs command args sx sy t = map Num ys \<and> length ys = length args"
proof -
  assume c: "completeArgs command args" and z: "toUpperCase command \<noteq> CHR ''Z''"
  let ?tx = "if isRelative command then 0 else px t"
  let ?ty = "if isRelative command then 0 else py t"
  show ?thesis
  proof (cases "toUpperCase command = CHR ''H''")
    case True
    then have "transformArgs command args sx sy t = map Num (map (\<lambda>x. x * sx + ?tx) args)"
      by (simp add: transformArgs_def Let_def)
    then show ?thesis by (intro exI[of _ "map (\<lambda>x. x * sx + ?tx) args"]) simp
  next
    case notH: False
    show ?thesis
    proof (cases "toUpperCase command = CHR ''V''")
      case True
      then have "transformArgs command args sx sy t = map Num (map (\<lambda>y. y * sy + ?ty) args)"
        using notH by (simp add: transformArgs_def Let_def)
      then show ?thesis by (intro exI[of _ "map (\<lambda>y. y * sy + ?ty) args"]) simp
    next
      case notV: False
      show ?thesis
      proof (cases "toUpperCase command = CHR ''A''")
        case True
        with c z notH notV have "length args mod 7 = 0" by (simp add: completeArgs_def)
        from arcLoop_numbers[OF this, of sx sy ?tx ?ty] True notH notV show ?thesis
          by (simp add: transformArgs_def Let_def)
      next
        case False
        with c z notH notV have "length args mod 2 = 0" by (simp add: completeArgs_def)
        from pairLoop_numbers[OF this, of sx sy ?tx ?ty] False notH notV show ?thesis
          by (simp add: transformArgs_def Let_def)
      qed
    qed
  qed
qed



section \<open>Reading back what the path transform writes\<close>










declare scanNumbers.simps [simp del]























lemma upper_Z: "toUpperCase CHR ''Z'' = CHR ''Z''"
  by (simp add: toUpperCase_def)



lemma emitted_complete:
  assumes "completeArgs (fst m) (snd m)"
  shows "completeArgs (fst (emittedCommand sx sy t m)) (snd (emittedCommand sx sy t m))"
proof (cases "toUpperCase (fst m) = CHR ''Z''")
  case True
  then show ?thesis by (simp add: emittedCommand_def completeArgs_def upper_Z)
next
  case False
  from transformArgs_numbers[OF assms False, of sx sy t] obtain ys where
    "transformArgs (fst m) (snd m) sx sy t = map Num ys" "length ys = length (snd m)"
    by blast
  with False assms show ?thesis
    by (simp add: emittedCommand_def numbersOf_Num completeArgs_def)
qed



section \<open>The transformed path in the path grammar\<close>









































lemma those_map_all:
  "list_all2 (\<lambda>x y. f x = Some y) xs ys \<Longrightarrow> those (map f xs) = Some ys"
  by (induction xs ys rule: list_all2_induct) simp_all































subsection \<open>Two paths\<close>









end
